theory Spec2Isabelle
  imports Complex_Main
begin

section \<open>JavaScript strings\<close>

text \<open>
  The components match step records by lowercased substrings and extensions. Strings are
  \<open>char list\<close>; \<open>toLowerCase\<close> folds the ASCII letters (the literals the code compares
  against are ASCII); \<open>endsWith\<close> and \<open>includes_str\<close> (the method \<open>includes\<close>)
  are the string methods, with the receiver as first argument.
\<close>

definition toLowerChar :: "char \<Rightarrow> char" where
  "toLowerChar c =
     (case map_of (zip ''ABCDEFGHIJKLMNOPQRSTUVWXYZ'' ''abcdefghijklmnopqrstuvwxyz'') c of
        Some d \<Rightarrow> d
      | None \<Rightarrow> c)"

definition toLowerCase :: "string \<Rightarrow> string" where
  "toLowerCase s = map toLowerChar s"

definition endsWith :: "string \<Rightarrow> string \<Rightarrow> bool" where
  "endsWith s t = (length t \<le> length s \<and> drop (length s - length t) s = t)"

definition startsAt :: "string \<Rightarrow> string \<Rightarrow> bool" where
  "startsAt s t = (take (length t) s = t)"

fun includes_str :: "string \<Rightarrow> string \<Rightarrow> bool" where
  "includes_str [] t = (t = [])"
| "includes_str (c # cs) t = (startsAt (c # cs) t \<or> includes_str cs t)"

text \<open>\<open>x || ''\<close> for a field that is a string or absent: the empty string is falsy.\<close>

definition or_empty :: "string option \<Rightarrow> string" where
  "or_empty x = (case x of None \<Rightarrow> [] | Some s \<Rightarrow> s)"

text \<open>Truthiness of a field that is a string or absent.\<close>

definition truthy_str :: "string option \<Rightarrow> bool" where
  "truthy_str x = (case x of None \<Rightarrow> False | Some s \<Rightarrow> s \<noteq> [])"

text \<open>\<open>a || b\<close> on the results of two \<open>find\<close> calls: a found object is always truthy.\<close>

definition or_else :: "'a option \<Rightarrow> 'a option \<Rightarrow> 'a option" where
  "or_else a b = (case a of Some x \<Rightarrow> Some x | None \<Rightarrow> b)"

section \<open>Step records and pipeline results\<close>

text \<open>
  A step record as the pipeline reports it: the label is the field \<open>step\<close>, the storage
  key the field \<open>output\<close> (here \<open>output_key\<close>); either may be absent.
\<close>

record StepRecord =
  step :: "string option"
  output_key :: "string option"
  status :: "string option"

text \<open>
  The result of the invocation, possibly in Lambda proxy form: \<open>body\<close> is an object
  with its own \<open>steps\<close>, or a string that did not parse.
\<close>

record ResultBody =
  body_status :: "string option"
  body_steps :: "StepRecord list option"
  body_total_time_seconds :: "int option"

datatype Body = BodyText string | BodyObject ResultBody

record PipelineResult =
  statusCode :: "int option"
  body :: "Body option"
  result_status :: "string option"
  result_steps :: "StepRecord list option"
  total_time_seconds :: "int option"

text \<open>\<open>results.body?.steps\<close>: a string body has no such property.\<close>

definition body_steps_of :: "PipelineResult \<Rightarrow> StepRecord list option" where
  "body_steps_of r =
     (case body r of
        Some (BodyObject b) \<Rightarrow> body_steps b
      | _ \<Rightarrow> None)"

text \<open>\<open>results.body?.steps || results.steps || []\<close>: an array, even empty, is truthy.\<close>

definition steps_of :: "PipelineResult \<Rightarrow> StepRecord list" where
  "steps_of r =
     (case body_steps_of r of
        Some ss \<Rightarrow> ss
      | None \<Rightarrow> (case result_steps r of Some ss \<Rightarrow> ss | None \<Rightarrow> []))"

section \<open>Step classification\<close>

subsection \<open>Dashboard: SOW, pricing and architecture\<close>

definition sow_named :: "StepRecord \<Rightarrow> bool" where
  "sow_named s =
     (let name = toLowerCase (or_empty (step s));
          out = toLowerCase (or_empty (output_key s));
          isDoc = (endsWith out ''.docx'' \<or> endsWith out ''.pdf'')
      in isDoc \<and> (includes_str name ''sow'' \<or> includes_str name ''statement of work'' \<or> includes_str out ''sow''))"

definition sow_any_doc :: "StepRecord \<Rightarrow> bool" where
  "sow_any_doc s =
     (let out = toLowerCase (or_empty (output_key s))
      in out \<noteq> [] \<and> (endsWith out ''.docx'' \<or> endsWith out ''.pdf''))"

definition sowStep :: "StepRecord list \<Rightarrow> StepRecord option" where
  "sowStep steps = or_else (find sow_named steps) (find sow_any_doc steps)"

definition pricing_named :: "StepRecord \<Rightarrow> bool" where
  "pricing_named s =
     (let name = toLowerCase (or_empty (step s));
          out = toLowerCase (or_empty (output_key s));
          looksJson = endsWith out ''.json'';
          mentionsPricing = (includes_str name ''pricing'' \<or> includes_str out ''pricing'' \<or> includes_str out ''price'')
      in looksJson \<and> mentionsPricing)"

definition pricing_any_json :: "StepRecord \<Rightarrow> bool" where
  "pricing_any_json s =
     (let out = toLowerCase (or_empty (output_key s))
      in out \<noteq> [] \<and> endsWith out ''.json'')"

definition pricingStep :: "StepRecord list \<Rightarrow> StepRecord option" where
  "pricingStep steps = or_else (find pricing_named steps) (find pricing_any_json steps)"

definition architecture_named :: "StepRecord \<Rightarrow> bool" where
  "architecture_named s =
     (let name = toLowerCase (or_empty (step s));
          out = toLowerCase (or_empty (output_key s));
          isPng = endsWith out ''.png'';
          mentionsArchitecture =
            (includes_str name ''architecture'' \<or> includes_str name ''diagram'' \<or>
             includes_str out ''architecture'' \<or> includes_str out ''diagram'')
      in isPng \<and> mentionsArchitecture)"

definition architectureStep :: "StepRecord list \<Rightarrow> StepRecord option" where
  "architectureStep steps = find architecture_named steps"

subsection \<open>Clarifications page\<close>

definition clar_named :: "StepRecord \<Rightarrow> bool" where
  "clar_named s =
     (let name = toLowerCase (or_empty (step s));
          out = toLowerCase (or_empty (output_key s))
      in endsWith out ''.json'' \<and> (includes_str name ''clarification'' \<or> includes_str out ''clarification''))"

definition clar_any_json :: "StepRecord \<Rightarrow> bool" where
  "clar_any_json s = endsWith (toLowerCase (or_empty (output_key s))) ''.json''"

definition clarStep :: "StepRecord list \<Rightarrow> StepRecord option" where
  "clarStep steps = or_else (find clar_named steps) (find clar_any_json steps)"

subsection \<open>ArchitectureDiagram component\<close>

text \<open>
  The component compares the label with \<open>===\<close> and tests the extension on the key as it
  is, without lowercasing; it reads \<open>results.steps\<close> only.
\<close>

definition component_architecture_named :: "StepRecord \<Rightarrow> bool" where
  "component_architecture_named s =
     (step s = Some ''Architecture Diagram'' \<and> truthy_str (output_key s) \<and>
      endsWith (or_empty (output_key s)) ''.json'')"

definition componentArchitectureStep :: "StepRecord list \<Rightarrow> StepRecord option" where
  "componentArchitectureStep steps = find component_architecture_named steps"

subsection \<open>The role binding\<close>

record RoleBinding =
  rb_pricing :: "StepRecord option"
  rb_clarification :: "StepRecord option"
  rb_architecture :: "StepRecord option"
  rb_sow :: "StepRecord option"

text \<open>
  The scans live in two components and each reads the step list on its own;
  \<open>classify\<close> collects what they bind.
\<close>

definition classify :: "StepRecord list \<Rightarrow> RoleBinding" where
  "classify steps =
     \<lparr> rb_pricing = pricingStep steps,
       rb_clarification = clarStep steps,
       rb_architecture = architectureStep steps,
       rb_sow = sowStep steps \<rparr>"

subsection \<open>Download listing\<close>

definition download_listed :: "StepRecord \<Rightarrow> bool" where
  "download_listed s =
     (let name = toLowerCase (or_empty (step s))
      in truthy_str (output_key s) \<and> \<not> includes_str name ''parsing'' \<and> \<not> includes_str name ''clarification'')"

definition downloadListing :: "StepRecord list \<Rightarrow> StepRecord list" where
  "downloadListing steps = filter download_listed steps"


section \<open>Simulated progress\<close>

text \<open>
  \<open>startSimulatedProgress\<close> reports the first value at once and then one value per
  timer period until the value reaches the ceiling or the returned stop function is
  called. The options are destructured with defaults; numbers are modelled as integers.
\<close>

record SimOptions =
  opt_start :: "int option"
  opt_ceiling :: "int option"
  opt_intervalMs :: "int option"
  opt_minStep :: "int option"
  opt_maxStep :: "int option"

text \<open>A destructuring default.\<close>

definition or_default :: "'a option \<Rightarrow> 'a \<Rightarrow> 'a" where
  "or_default x d = (case x of None \<Rightarrow> d | Some v \<Rightarrow> v)"

definition sim_start_value :: "SimOptions \<Rightarrow> int" where
  "sim_start_value opts = or_default (opt_start opts) 5"

definition sim_ceiling :: "SimOptions \<Rightarrow> int" where
  "sim_ceiling opts = or_default (opt_ceiling opts) 95"

definition sim_minStep :: "SimOptions \<Rightarrow> int" where
  "sim_minStep opts = or_default (opt_minStep opts) 1"

definition sim_maxStep :: "SimOptions \<Rightarrow> int" where
  "sim_maxStep opts = or_default (opt_maxStep opts) 5"

record SimState =
  current :: int
  stopped :: bool
  cleared :: bool

text \<open>\<open>Math.ceil(distance / 10)\<close> on integers.\<close>

definition ceil_div10 :: "int \<Rightarrow> int" where
  "ceil_div10 d = - ((- d) div 10)"

definition startSimulatedProgress :: "SimOptions \<Rightarrow> SimState \<times> int list" where
  "startSimulatedProgress opts =
     (\<lparr> current = sim_start_value opts, stopped = False, cleared = False \<rparr>,
      [min (sim_start_value opts) (sim_ceiling opts)])"

definition sim_delta :: "SimOptions \<Rightarrow> SimState \<Rightarrow> int" where
  "sim_delta opts st =
     (let distance = max 0 (sim_ceiling opts - current st);
          stepBase = max (sim_minStep opts) (min (sim_maxStep opts) (ceil_div10 distance));
          delta = max (sim_minStep opts) (min (sim_maxStep opts) stepBase)
      in delta)"

text \<open>One firing of the interval callback; a cleared interval no longer fires.\<close>

definition sim_tick :: "SimOptions \<Rightarrow> SimState \<Rightarrow> SimState \<times> int list" where
  "sim_tick opts st =
     (if cleared st \<or> stopped st then (st, [])
      else
        let cur = min (current st + sim_delta opts st) (sim_ceiling opts)
        in (st\<lparr> current := cur, cleared := (cur \<ge> sim_ceiling opts) \<rparr>, [cur]))"

text \<open>\<open>n\<close> timer periods, with the values reported in order.\<close>

fun sim_ticks :: "SimOptions \<Rightarrow> nat \<Rightarrow> SimState \<Rightarrow> SimState \<times> int list" where
  "sim_ticks opts 0 st = (st, [])"
| "sim_ticks opts (Suc n) st =
     (case sim_tick opts st of
        (st1, e1) \<Rightarrow> (case sim_ticks opts n st1 of (st2, e2) \<Rightarrow> (st2, e1 @ e2)))"

text \<open>The function that \<open>startSimulatedProgress\<close> returns.\<close>

definition stopSim :: "SimState \<Rightarrow> SimState" where
  "stopSim st = st\<lparr> stopped := True, cleared := True \<rparr>"

text \<open>Everything a run reports when it is left alone for \<open>n\<close> periods.\<close>

definition simulated_progress :: "SimOptions \<Rightarrow> nat \<Rightarrow> int list" where
  "simulated_progress opts n =
     (case startSimulatedProgress opts of
        (st0, e0) \<Rightarrow> e0 @ snd (sim_ticks opts n st0))"

text \<open>The options \<open>processRFP\<close> passes, and options with a ceiling above 100.\<close>

definition pipeline_sim_options :: SimOptions where
  "pipeline_sim_options =
     \<lparr> opt_start = Some 10, opt_ceiling = Some 95, opt_intervalMs = Some 900,
       opt_minStep = None, opt_maxStep = None \<rparr>"

definition high_ceiling_options :: SimOptions where
  "high_ceiling_options =
     \<lparr> opt_start = Some 140, opt_ceiling = Some 150, opt_intervalMs = None,
       opt_minStep = None, opt_maxStep = None \<rparr>"

section \<open>Vocabulary of the properties\<close>

definition lower_out :: "StepRecord \<Rightarrow> string" where
  "lower_out s = toLowerCase (or_empty (output_key s))"

definition lower_name :: "StepRecord \<Rightarrow> string" where
  "lower_name s = toLowerCase (or_empty (step s))"

text \<open>Two roles hold the same step.\<close>

definition same_bound :: "StepRecord option \<Rightarrow> StepRecord option \<Rightarrow> bool" where
  "same_bound x y = (x \<noteq> None \<and> x = y)"

definition no_double_binding :: "RoleBinding \<Rightarrow> bool" where
  "no_double_binding rb =
     (\<not> same_bound (rb_pricing rb) (rb_clarification rb) \<and>
      \<not> same_bound (rb_pricing rb) (rb_architecture rb) \<and>
      \<not> same_bound (rb_pricing rb) (rb_sow rb) \<and>
      \<not> same_bound (rb_clarification rb) (rb_architecture rb) \<and>
      \<not> same_bound (rb_clarification rb) (rb_sow rb) \<and>
      \<not> same_bound (rb_architecture rb) (rb_sow rb))"

text \<open>\<open>x\<close> is the element of \<open>xs\<close> at the least index that satisfies \<open>P\<close>.\<close>

definition first_match :: "('a \<Rightarrow> bool) \<Rightarrow> 'a list \<Rightarrow> 'a \<Rightarrow> bool" where
  "first_match P xs x = (\<exists>i<length xs. xs ! i = x \<and> P x \<and> (\<forall>j<i. \<not> P (xs ! j)))"

definition mentions_architecture :: "StepRecord \<Rightarrow> bool" where
  "mentions_architecture s =
     (includes_str (lower_name s) ''architecture'' \<or> includes_str (lower_name s) ''diagram'' \<or>
      includes_str (lower_out s) ''architecture'' \<or> includes_str (lower_out s) ''diagram'')"

text \<open>
  The architecture rule in the words of the specification: the output ends in
  \<open>.png\<close> or \<open>.json\<close>, and the name or the output mentions the role.
\<close>

definition spec_architecture_named :: "StepRecord \<Rightarrow> bool" where
  "spec_architecture_named s =
     ((endsWith (lower_out s) ''.png'' \<or> endsWith (lower_out s) ''.json'') \<and> mentions_architecture s)"

definition spec_architectureStep :: "StepRecord list \<Rightarrow> StepRecord option" where
  "spec_architectureStep steps = find spec_architecture_named steps"

text \<open>What the two scans of the code test.\<close>

definition png_architecture :: "StepRecord \<Rightarrow> bool" where
  "png_architecture s = (endsWith (lower_out s) ''.png'' \<and> mentions_architecture s)"

definition exact_architecture_json :: "StepRecord \<Rightarrow> bool" where
  "exact_architecture_json s =
     (step s = Some ''Architecture Diagram'' \<and>
      (\<exists>k. output_key s = Some k \<and> endsWith k ''.json''))"

definition download_eligible :: "StepRecord \<Rightarrow> bool" where
  "download_eligible s =
     ((\<exists>k. output_key s = Some k \<and> k \<noteq> []) \<and>
      \<not> includes_str (lower_name s) ''parsing'' \<and>
      \<not> includes_str (lower_name s) ''clarification'')"

subsection \<open>Sample step lists\<close>

definition parsing_only :: "StepRecord list" where
  "parsing_only =
     [\<lparr> step = Some ''RFx Parsing'', output_key = Some ''u/parsed_outputs/rfp_parsed.json'',
        status = Some ''success'' \<rparr>]"

definition architecture_json_only :: "StepRecord list" where
  "architecture_json_only =
     [\<lparr> step = Some ''AWS Architecture'', output_key = Some ''u/aws_architectures/arch.json'',
        status = Some ''success'' \<rparr>]"

definition diagram_step :: StepRecord where
  "diagram_step =
     \<lparr> step = Some ''Architecture Diagram'', output_key = Some ''u/diagrams/rfp_diagram.png'',
       status = Some ''success'' \<rparr>"

definition sow_step :: StepRecord where
  "sow_step =
     \<lparr> step = Some ''SOW Draft'', output_key = Some ''u/sow_drafts/rfp_sow.docx'',
       status = Some ''success'' \<rparr>"

definition full_run :: "StepRecord list" where
  "full_run = parsing_only @ [diagram_step, sow_step]"

section \<open>Errors, numbers as text\<close>

datatype js_error =
    Error string
  | TypeError string
  | SyntaxError string
  | QuotaExceededError string

text \<open>\<open>err.message\<close>.\<close>

fun error_message :: "js_error \<Rightarrow> string" where
  "error_message (Error m) = m"
| "error_message (TypeError m) = m"
| "error_message (SyntaxError m) = m"
| "error_message (QuotaExceededError m) = m"

text \<open>The decimal text of a natural number, as a template literal renders it.\<close>

definition digit_char :: "nat \<Rightarrow> char" where
  "digit_char n = ''0123456789'' ! n"

fun show_nat :: "nat \<Rightarrow> string" where
  "show_nat n = (if n < 10 then [digit_char n] else show_nat (n div 10) @ [digit_char (n mod 10)])"

declare show_nat.simps [simp del]

section \<open>JSON payloads as JavaScript values\<close>

text \<open>
  A number is a double: \<open>NaN\<close>, a finite double with an integer value (\<open>Fin\<close>; the
  two zeros are not told apart, as the code cannot tell them apart), a finite double with
  a non-integer value (\<open>NonInt\<close>, with its exact value), or an infinity (\<open>Infinity\<close>,
  \<open>True\<close> for the positive one). A payload is a JSON value; an object lists its
  properties in the order \<open>Object.keys\<close> reports them. \<open>NaN\<close> and the infinities never
  come from a payload, only from arithmetic and conversions. A value that may be
  \<open>undefined\<close> is a \<open>json option\<close>.
\<close>

datatype jsnum = NaN | Fin int | NonInt rat | Infinity bool

datatype json =
    JNull
  | JBool bool
  | JNum jsnum
  | JStr string
  | JArr "json list"
  | JObj "(string \<times> json) list"

text \<open>
  What the runtime provides and the repository does not define: the conversion of a
  string to a number and of a number to its text, the addition and the multiplication
  of doubles with their rounding, and \<open>JSON.stringify\<close> without and with indentation.
\<close>

record Runtime =
  StringToNumber :: "string \<Rightarrow> jsnum"
  NumberToString :: "jsnum \<Rightarrow> string"
  double_add :: "jsnum \<Rightarrow> jsnum \<Rightarrow> jsnum"
  double_mul :: "jsnum \<Rightarrow> jsnum \<Rightarrow> jsnum"
  JSON_stringify :: "json \<Rightarrow> string"
  JSON_stringify_indented :: "json \<Rightarrow> string"

definition show_int :: "int \<Rightarrow> string" where
  "show_int i = (if i < 0 then CHR ''-'' # show_nat (nat (- i)) else show_nat (nat i))"

text \<open>
  The text of a number: the decimal digits of an integer below \<open>10^21\<close>, and what the
  runtime prints for the other finite numbers.
\<close>

definition show_num :: "Runtime \<Rightarrow> jsnum \<Rightarrow> string" where
  "show_num rt n =
     (case n of
        NaN \<Rightarrow> ''NaN''
      | Fin i \<Rightarrow> (if \<bar>i\<bar> < 10 ^ 21 then show_int i else NumberToString rt n)
      | NonInt r \<Rightarrow> NumberToString rt n
      | Infinity b \<Rightarrow> (if b then ''Infinity'' else ''-Infinity''))"

text \<open>\<open>Array.prototype.join\<close> with a comma.\<close>

fun join_comma :: "string list \<Rightarrow> string" where
  "join_comma [] = []"
| "join_comma [s] = s"
| "join_comma (s # t # ss) = s @ '','' @ join_comma (t # ss)"

text \<open>\<open>String(v)\<close>, which a template literal applies; in an array \<open>null\<close> joins as empty.\<close>

fun to_string :: "Runtime \<Rightarrow> json \<Rightarrow> string" where
  "to_string rt JNull = ''null''"
| "to_string rt (JBool b) = (if b then ''true'' else ''false'')"
| "to_string rt (JNum n) = show_num rt n"
| "to_string rt (JStr s) = s"
| "to_string rt (JArr xs) = join_comma (map (\<lambda>x. if x = JNull then [] else to_string rt x) xs)"
| "to_string rt (JObj kvs) = ''[object Object]''"

text \<open>The own enumerable properties: of an array and of a string, the indices.\<close>

fun own_props :: "json \<Rightarrow> (string \<times> json) list" where
  "own_props (JObj kvs) = kvs"
| "own_props (JArr xs) = zip (map show_nat [0..<length xs]) xs"
| "own_props (JStr s) = zip (map show_nat [0..<length s]) (map (\<lambda>c. JStr [c]) s)"
| "own_props _ = []"

definition Object_keys :: "json \<Rightarrow> string list" where
  "Object_keys v = map fst (own_props v)"

text \<open>
  \<open>v[k]\<close> on a value that is neither \<open>null\<close> nor \<open>undefined\<close>, for the names the
  components read: none of them is inherited from a prototype (\<open>length\<close> and
  \<open>map\<close> are modelled apart).
\<close>

definition get :: "json \<Rightarrow> string \<Rightarrow> json option" where
  "get v k = map_of (own_props v) k"

text \<open>\<open>v.k\<close>: reading a property of \<open>null\<close> or \<open>undefined\<close> throws.\<close>

definition read_prop :: "json option \<Rightarrow> string \<Rightarrow> js_error + json option" where
  "read_prop v k =
     (case v of
        None \<Rightarrow> Inl (TypeError (''Cannot read properties of undefined (reading '' @ k @ '')''))
      | Some JNull \<Rightarrow> Inl (TypeError (''Cannot read properties of null (reading '' @ k @ '')''))
      | Some x \<Rightarrow> Inr (get x k))"

text \<open>\<open>v?.k\<close>.\<close>

definition opt_prop :: "json option \<Rightarrow> string \<Rightarrow> json option" where
  "opt_prop v k =
     (case v of
        None \<Rightarrow> None
      | Some JNull \<Rightarrow> None
      | Some x \<Rightarrow> get x k)"

fun truthy_json :: "json \<Rightarrow> bool" where
  "truthy_json JNull = False"
| "truthy_json (JBool b) = b"
| "truthy_json (JNum NaN) = False"
| "truthy_json (JNum (Fin i)) = (i \<noteq> 0)"
| "truthy_json (JNum (NonInt r)) = (r \<noteq> 0)"
| "truthy_json (JNum (Infinity b)) = True"
| "truthy_json (JStr s) = (s \<noteq> [])"
| "truthy_json (JArr xs) = True"
| "truthy_json (JObj kvs) = True"

definition truthy :: "json option \<Rightarrow> bool" where
  "truthy v = (case v of None \<Rightarrow> False | Some x \<Rightarrow> truthy_json x)"

text \<open>\<open>a || b\<close> and \<open>a ?? b\<close>.\<close>

definition or_js :: "json option \<Rightarrow> json option \<Rightarrow> json option" where
  "or_js a b = (if truthy a then a else b)"

definition nullish :: "json option \<Rightarrow> bool" where
  "nullish v = (v = None \<or> v = Some JNull)"

definition coalesce :: "json option \<Rightarrow> json option \<Rightarrow> json option" where
  "coalesce a b = (if nullish a then b else a)"

definition isArray :: "json option \<Rightarrow> bool" where
  "isArray v = (case v of Some (JArr xs) \<Rightarrow> True | _ \<Rightarrow> False)"

definition array_items :: "json option \<Rightarrow> json list" where
  "array_items v = (case v of Some (JArr xs) \<Rightarrow> xs | _ \<Rightarrow> [])"

text \<open>\<open>Number(v)\<close>.\<close>

definition to_number :: "Runtime \<Rightarrow> json option \<Rightarrow> jsnum" where
  "to_number rt v =
     (case v of
        None \<Rightarrow> NaN
      | Some JNull \<Rightarrow> Fin 0
      | Some (JBool b) \<Rightarrow> Fin (if b then 1 else 0)
      | Some (JNum n) \<Rightarrow> n
      | Some (JStr s) \<Rightarrow> StringToNumber rt s
      | Some (JArr xs) \<Rightarrow> StringToNumber rt (to_string rt (JArr xs))
      | Some (JObj kvs) \<Rightarrow> NaN)"

text \<open>
  \<open>a + b\<close> and \<open>a * b\<close> on numbers. \<open>NaN\<close> absorbs. Two integers whose exact sum (or
  product) is at most \<open>2^53\<close> in absolute value give exactly that integer, since it is a
  double; every other result is the runtime's, with its rounding.
\<close>

definition safe_integer :: "int \<Rightarrow> bool" where
  "safe_integer i = (\<bar>i\<bar> \<le> 2 ^ 53)"

fun js_add :: "Runtime \<Rightarrow> jsnum \<Rightarrow> jsnum \<Rightarrow> jsnum" where
  "js_add rt NaN b = NaN"
| "js_add rt a NaN = NaN"
| "js_add rt (Fin x) (Fin y) =
     (if safe_integer (x + y) then Fin (x + y) else double_add rt (Fin x) (Fin y))"
| "js_add rt a b = double_add rt a b"

fun js_mul :: "Runtime \<Rightarrow> jsnum \<Rightarrow> jsnum \<Rightarrow> jsnum" where
  "js_mul rt NaN b = NaN"
| "js_mul rt a NaN = NaN"
| "js_mul rt (Fin x) (Fin y) =
     (if safe_integer (x * y) then Fin (x * y) else double_mul rt (Fin x) (Fin y))"
| "js_mul rt a b = double_mul rt a b"

text \<open>\<open>array.map(f)\<close> where \<open>f\<close> may throw: the first error ends the loop.\<close>

fun map_throwing :: "('a \<Rightarrow> js_error + 'b) \<Rightarrow> 'a list \<Rightarrow> js_error + 'b list" where
  "map_throwing f [] = Inr []"
| "map_throwing f (x # xs) =
     (case f x of
        Inl e \<Rightarrow> Inl e
      | Inr y \<Rightarrow> (case map_throwing f xs of Inl e \<Rightarrow> Inl e | Inr ys \<Rightarrow> Inr (y # ys)))"

text \<open>
  A runtime for the sample evaluations: it converts the empty string only, and its
  rounding arithmetic, which the samples do not reach, answers \<open>NaN\<close>.
\<close>

definition sample_runtime :: Runtime where
  "sample_runtime =
     \<lparr> StringToNumber = (\<lambda>s. if s = [] then Fin 0 else NaN),
       NumberToString = (\<lambda>n. ''(number)''),
       double_add = (\<lambda>a b. NaN),
       double_mul = (\<lambda>a b. NaN),
       JSON_stringify = (\<lambda>v. ''(json)''),
       JSON_stringify_indented = (\<lambda>v. ''(json)'') \<rparr>"

section \<open>The pipeline service\<close>

record ProgressInfo =
  p_step :: string
  p_message :: string
  p_progress :: int

record UploadFile =
  file_name :: string
  file_type :: string

record UploadResult =
  up_success :: bool
  up_key :: string
  up_bucket :: string

record LambdaPayload =
  pl_action :: string
  pl_bucket :: string
  pl_s3_key :: string
  pl_prompt :: string

record RFPSuccess =
  rfp_success :: bool
  uploadResult :: UploadResult
  processingResult :: PipelineResult

text \<open>How a promise of the platform settles.\<close>

datatype 'a settled = Resolved 'a | Rejected js_error

text \<open>
  What \<open>lambdaClient.invoke\<close> and the decoding of its payload give: the call is
  rejected, the payload is not JSON, or it parses to a result.
\<close>

datatype LambdaReply =
    InvokeRejected js_error
  | PayloadUnparsable js_error
  | PayloadParsed PipelineResult

text \<open>
  The surroundings of one run of \<open>processRFP\<close>: the clock, the percentages that the
  upload's progress events round to, how the upload settles, how many timer periods
  pass before the Lambda call settles, and the Lambda's reply to a payload.
\<close>

record PipelineEnv =
  env_now :: nat
  env_upload_percentages :: "int list"
  env_upload_done :: "unit settled"
  env_ticks :: nat
  env_lambda :: "LambdaPayload \<Rightarrow> LambdaReply"

definition S3_INPUT_BUCKET :: string where
  "S3_INPUT_BUCKET = ''presales-rfp-inputs''"

text \<open>\<open>userEmail.split('@')[0]\<close>.\<close>

definition username_of :: "string \<Rightarrow> string" where
  "username_of userEmail = takeWhile (\<lambda>c. c \<noteq> CHR ''@'') userEmail"

text \<open>
  \<open>uploadFileToS3\<close>: the percentages handed to the progress callback, and the result or
  the wrapped error.
\<close>

definition uploadFileToS3 ::
  "UploadFile \<Rightarrow> string \<Rightarrow> PipelineEnv \<Rightarrow> int list \<times> (js_error + UploadResult)" where
  "uploadFileToS3 file userEmail env =
     (let username = username_of userEmail;
          s3Key = username @ ''/'' @ show_nat (env_now env) @ ''_'' @ file_name file
      in (env_upload_percentages env,
          (case env_upload_done env of
             Resolved _ \<Rightarrow> Inr \<lparr> up_success = True, up_key = s3Key, up_bucket = S3_INPUT_BUCKET \<rparr>
           | Rejected err \<Rightarrow> Inl (Error (''Failed to upload: '' @ error_message err)))))"

text \<open>\<open>result.body || 'Lambda returned error'\<close> as the message of the new error.\<close>

definition lambda_error_text :: "PipelineResult \<Rightarrow> string" where
  "lambda_error_text result =
     (case body result of
        Some (BodyText s) \<Rightarrow> (if s \<noteq> [] then s else ''Lambda returned error'')
      | Some (BodyObject b) \<Rightarrow> ''[object Object]''
      | None \<Rightarrow> ''Lambda returned error'')"

definition invokeLambdaFunction :: "LambdaReply \<Rightarrow> js_error + PipelineResult" where
  "invokeLambdaFunction reply =
     (case reply of
        InvokeRejected err \<Rightarrow> Inl err
      | PayloadUnparsable err \<Rightarrow> Inl err
      | PayloadParsed result \<Rightarrow>
          (case statusCode result of
             Some code \<Rightarrow>
               (if code \<noteq> 0 \<and> code \<noteq> 200 then Inl (Error (lambda_error_text result))
                else Inr result)
           | None \<Rightarrow> Inr result))"

record RFPRun =
  emitted :: "ProgressInfo list"
  timer :: "SimState option"
  outcome :: "js_error + RFPSuccess"

definition progress_event :: "string \<Rightarrow> string \<Rightarrow> int \<Rightarrow> ProgressInfo" where
  "progress_event s m p = \<lparr> p_step = s, p_message = m, p_progress = p \<rparr>"

text \<open>
  \<open>processRFP\<close>: every call it makes to the progress callback, what became of the
  simulation timer (\<open>None\<close> when it was never started), and the result or the error it
  throws.
\<close>

definition processRFP :: "UploadFile \<Rightarrow> string \<Rightarrow> PipelineEnv \<Rightarrow> RFPRun" where
  "processRFP file userEmail env =
     (let ev0 = [progress_event ''upload'' ''Uploading file...'' 0] in
      case uploadFileToS3 file userEmail env of
        (ps, Inl err) \<Rightarrow>
          \<lparr> emitted = ev0 @ map (progress_event ''upload'' ''Uploading to S3...'') ps,
            timer = None,
            outcome = Inl err \<rparr>
      | (ps, Inr uploadRes) \<Rightarrow>
          (let ev1 = ev0 @ map (progress_event ''upload'' ''Uploading to S3...'') ps
                 @ [progress_event ''upload'' ''Upload complete'' 100,
                    progress_event ''process'' ''Invoking Bedrock Agent...'' 10];
               opts = pipeline_sim_options;
               payload = \<lparr> pl_action = ''full_pipeline'', pl_bucket = S3_INPUT_BUCKET,
                           pl_s3_key = up_key uploadRes, pl_prompt = ''Process RPF'' \<rparr>
           in case startSimulatedProgress opts of
             (st0, e0) \<Rightarrow>
               (case sim_ticks opts (env_ticks env) st0 of
                  (st1, es) \<Rightarrow>
                    (let ev2 = ev1 @ map (progress_event ''process'' ''Processing...'') (e0 @ es) in
                     case invokeLambdaFunction (env_lambda env payload) of
                       Inr result \<Rightarrow>
                         \<lparr> emitted = ev2 @ [progress_event ''process'' ''Processing complete!'' 100],
                           timer = Some (stopSim st1),
                           outcome = Inr \<lparr> rfp_success = True, uploadResult = uploadRes,
                                           processingResult = result \<rparr> \<rparr>
                     | Inl err \<Rightarrow>
                         \<lparr> emitted = ev2, timer = Some (stopSim st1), outcome = Inl err \<rparr>))))"

section \<open>The platform's JSON and the browser\<close>

text \<open>
  \<open>JSON.parse\<close> and \<open>JSON.stringify\<close> belong to the platform, not to the repository;
  the model takes them as given.
\<close>

record Platform =
  JSON_parse_body :: "string \<Rightarrow> js_error + Body option"
  JSON_stringify_result :: "PipelineResult \<Rightarrow> string"
  JSON_parse_result :: "string \<Rightarrow> js_error + PipelineResult option"

text \<open>
  The browser as the components use it: the local storage with its quota (kept here as one
  bound on the size of an item), and the router's location with the state passed on
  navigation.
\<close>

record Browser =
  localStorage :: "string \<rightharpoonup> string"
  storage_quota :: nat
  route :: string
  route_results :: "PipelineResult option"

definition setItem :: "Browser \<Rightarrow> string \<Rightarrow> string \<Rightarrow> js_error + Browser" where
  "setItem b k v =
     (if storage_quota b < length k + length v then Inl (QuotaExceededError ''exceeded the quota'')
      else Inr (b\<lparr> localStorage := (localStorage b)(k \<mapsto> v) \<rparr>))"

definition getItem :: "Browser \<Rightarrow> string \<Rightarrow> string option" where
  "getItem b k = localStorage b k"

text \<open>\<open>try { localStorage.setItem('rfx_results', JSON.stringify(processing)); } catch (_) {}\<close>\<close>

definition cache_write :: "Platform \<Rightarrow> Browser \<Rightarrow> PipelineResult \<Rightarrow> Browser" where
  "cache_write pf b processing =
     (case setItem b ''rfx_results'' (JSON_stringify_result pf processing) of
        Inr b' \<Rightarrow> b'
      | Inl _ \<Rightarrow> b)"

text \<open>The memoised \<open>results\<close> of the Results page.\<close>

definition results_memo :: "Platform \<Rightarrow> Browser \<Rightarrow> PipelineResult option" where
  "results_memo pf b =
     (case route_results b of
        Some r \<Rightarrow> Some r
      | None \<Rightarrow>
          (case getItem b ''rfx_results'' of
             None \<Rightarrow> None
           | Some cached \<Rightarrow>
               (if cached = [] then None
                else (case JSON_parse_result pf cached of
                        Inr v \<Rightarrow> v
                      | Inl _ \<Rightarrow> None))))"

section \<open>The Dashboard\<close>

record DashboardState =
  selectedFile :: "UploadFile option"
  processing :: bool
  progress :: ProgressInfo
  results :: "PipelineResult option"
  error :: string

text \<open>A Lambda proxy response may carry its body as a JSON string; a parse error is ignored.\<close>

definition normalize_body :: "Platform \<Rightarrow> PipelineResult \<Rightarrow> PipelineResult" where
  "normalize_body pf r =
     (case body r of
        Some (BodyText s) \<Rightarrow>
          (case JSON_parse_body pf s of
             Inr b \<Rightarrow> r\<lparr> body := b \<rparr>
           | Inl _ \<Rightarrow> r)
      | _ \<Rightarrow> r)"

definition or_text :: "string \<Rightarrow> string \<Rightarrow> string" where
  "or_text s d = (if s \<noteq> [] then s else d)"

text \<open>
  \<open>handleUpload\<close>, from the click to the end of its \<open>finally\<close>. The progress callback
  stores each reported value; the state kept is the one after the last of them.
\<close>

definition handleUpload ::
  "Platform \<Rightarrow> string \<Rightarrow> PipelineEnv \<Rightarrow> DashboardState \<times> Browser \<Rightarrow> DashboardState \<times> Browser" where
  "handleUpload pf userEmail env sb =
     (case sb of (st, b) \<Rightarrow>
      (case selectedFile st of
         None \<Rightarrow> (st\<lparr> error := ''Please select a file first'' \<rparr>, b)
       | Some file \<Rightarrow>
           (let st1 = st\<lparr> processing := True, error := [], results := None \<rparr>;
                run = processRFP file userEmail env;
                st2 = st1\<lparr> progress := last (progress st1 # emitted run) \<rparr>;
                fin = (\<lambda>s. s\<lparr> processing := False,
                              progress := progress_event [] [] 0 \<rparr>)
            in case outcome run of
                 Inr res \<Rightarrow>
                   (let normalized = normalize_body pf (processingResult res);
                        st3 = st2\<lparr> results := Some normalized \<rparr>;
                        b1 = cache_write pf b normalized;
                        b2 = b1\<lparr> route := ''/clarifications'', route_results := Some normalized \<rparr>
                    in (fin (st3\<lparr> selectedFile := None \<rparr>), b2))
               | Inl err \<Rightarrow>
                   (fin (st2\<lparr> error := or_text (error_message err) ''Failed to process RFP'' \<rparr>), b))))"

text \<open>\<open>key.split('/').pop()\<close>.\<close>

definition basename :: "string \<Rightarrow> string" where
  "basename k = rev (takeWhile (\<lambda>c. c \<noteq> CHR ''/'') (rev k))"

text \<open>
  The role states the Dashboard derives from \<open>results\<close>: the keys and file names it
  stores, and the key of the pricing document it starts to fetch.
\<close>

record RoleStates =
  sowKey :: string
  sowFilename :: string
  pricingFetch :: "string option"
  architectureKey :: string
  architectureFilename :: string

definition key_of :: "StepRecord option \<Rightarrow> string" where
  "key_of s = (case s of None \<Rightarrow> [] | Some r \<Rightarrow> or_empty (output_key r))"

definition detect_outputs :: "PipelineResult option \<Rightarrow> RoleStates" where
  "detect_outputs res =
     (case res of
        None \<Rightarrow>
          \<lparr> sowKey = [], sowFilename = [], pricingFetch = None,
            architectureKey = [], architectureFilename = [] \<rparr>
      | Some r \<Rightarrow>
          (let steps = steps_of r;
               sow = key_of (sowStep steps);
               pricing = key_of (pricingStep steps);
               arch = key_of (architectureStep steps)
           in \<lparr> sowKey = sow, sowFilename = basename sow,
                pricingFetch = (if pricing \<noteq> [] then Some pricing else None),
                architectureKey = arch, architectureFilename = basename arch \<rparr>))"

text \<open>Vocabulary for the pipeline properties, and sample runs.\<close>

definition no_roles :: RoleStates where
  "no_roles = \<lparr> sowKey = [], sowFilename = [], pricingFetch = None,
                architectureKey = [], architectureFilename = [] \<rparr>"

definition timer_cancelled :: "SimState option \<Rightarrow> bool" where
  "timer_cancelled t = (case t of None \<Rightarrow> False | Some s \<Rightarrow> stopped s \<and> cleared s)"

definition process_events :: "RFPRun \<Rightarrow> ProgressInfo list" where
  "process_events run = filter (\<lambda>e. p_step e = ''process'') (emitted run)"

definition sample_file :: UploadFile where
  "sample_file = \<lparr> file_name = ''rfp.pdf'', file_type = ''application/pdf'' \<rparr>"

definition failing_env :: PipelineEnv where
  "failing_env =
     \<lparr> env_now = 1729, env_upload_percentages = [50, 100],
       env_upload_done = Resolved (), env_ticks = 3,
       env_lambda = (\<lambda>_. InvokeRejected (Error ''Task timed out'')) \<rparr>"

definition sample_result :: PipelineResult where
  "sample_result =
     \<lparr> statusCode = Some 200, body = None, result_status = Some ''success'',
       result_steps = Some full_run, total_time_seconds = Some 42 \<rparr>"

definition succeeding_env :: PipelineEnv where
  "succeeding_env = failing_env\<lparr> env_lambda := (\<lambda>_. PayloadParsed sample_result) \<rparr>"

definition idle_dashboard :: DashboardState where
  "idle_dashboard =
     \<lparr> selectedFile = Some sample_file, processing = False,
       progress = progress_event [] [] 0, results = None, error = [] \<rparr>"

definition empty_browser :: Browser where
  "empty_browser =
     \<lparr> localStorage = Map.empty, storage_quota = 100, route = ''/dashboard'',
       route_results = None \<rparr>"

definition no_platform :: Platform where
  "no_platform =
     \<lparr> JSON_parse_body = (\<lambda>_. Inl (SyntaxError ''Unexpected token'')),
       JSON_stringify_result = (\<lambda>_. ''{}''),
       JSON_parse_result = (\<lambda>_. Inl (SyntaxError ''Unexpected token'')) \<rparr>"

definition sample_email :: string where
  "sample_email = ''a.b@hcltech.com''"

text \<open>The steps a cached value gives after the read, and their classification.\<close>

definition cached_binding :: "Platform \<Rightarrow> Browser \<Rightarrow> RoleBinding option" where
  "cached_binding pf b = map_option (\<lambda>r. classify (steps_of r)) (results_memo pf b)"

text \<open>A platform whose JSON functions know one text, and a cache holding garbage.\<close>

definition sample_text :: string where
  \<open>sample_text = ''{"statusCode":200,"status":"success"}''\<close>

definition sample_platform :: Platform where
  "sample_platform =
     \<lparr> JSON_parse_body = (\<lambda>_. Inl (SyntaxError ''Unexpected token'')),
       JSON_stringify_result = (\<lambda>_. sample_text),
       JSON_parse_result =
         (\<lambda>s. if s = sample_text then Inr (Some sample_result)
              else Inl (SyntaxError ''Unexpected token'')) \<rparr>"

definition corrupted_browser :: Browser where
  "corrupted_browser = empty_browser\<lparr> localStorage := [''rfx_results'' \<mapsto> ''{not json''] \<rparr>"

section \<open>Clarifications page: the questions\<close>

text \<open>The first truthy of the named properties of \<open>q\<close>, else \<open>JSON.stringify(q)\<close>.\<close>

fun first_truthy_prop :: "json \<Rightarrow> string list \<Rightarrow> json option" where
  "first_truthy_prop q [] = None"
| "first_truthy_prop q (k # ks) = (if truthy (get q k) then get q k else first_truthy_prop q ks)"

definition question_text :: "Runtime \<Rightarrow> string list \<Rightarrow> json \<Rightarrow> js_error + json" where
  "question_text rt names q =
     (case q of
        JStr s \<Rightarrow> Inr (JStr s)
      | JNull \<Rightarrow> Inl (TypeError ''Cannot read properties of null (reading question)'')
      | _ \<Rightarrow>
          (case first_truthy_prop q names of
             Some v \<Rightarrow> Inr v
           | None \<Rightarrow> Inr (JStr (JSON_stringify rt q))))"

definition pseudo_question :: "Runtime \<Rightarrow> json \<Rightarrow> string \<Rightarrow> json" where
  "pseudo_question rt payload k =
     JStr (k @ '': '' @
       (case get payload k of
          Some (JStr s) \<Rightarrow> s
        | Some v \<Rightarrow> JSON_stringify rt v
        | None \<Rightarrow> ''undefined''))"

text \<open>\<open>processClarifications\<close>: the \<open>text\<close> of each entry of \<open>qList\<close>, or the error thrown.\<close>

definition processClarifications :: "Runtime \<Rightarrow> json \<Rightarrow> js_error + json list" where
  "processClarifications rt payload =
     (if isArray (Some payload) then
        map_throwing (question_text rt [''question'', ''q'', ''text'', ''prompt'']) (array_items (Some payload))
      else if isArray (opt_prop (Some payload) ''questions'') then
        map_throwing (question_text rt [''question'', ''text''])
          (array_items (opt_prop (Some payload) ''questions''))
      else if isArray (opt_prop (Some payload) ''clarifications'') then
        map_throwing (question_text rt [''question'', ''text''])
          (array_items (opt_prop (Some payload) ''clarifications''))
      else
        Inr (map (pseudo_question rt payload)
               (Object_keys (if truthy_json payload then payload else JObj []))))"

section \<open>Dashboard: the pricing view\<close>

text \<open>
  \<open>toCurrency(value, currency)\<close> hands an amount and a currency code to the platform's
  number formatting (and, where that rejects the code, prints the same two itself); the
  view keeps the amount and the code.
\<close>

datatype cell = Bare string | Money jsnum string

definition currency_amount :: "Runtime \<Rightarrow> json option \<Rightarrow> jsnum" where
  "currency_amount rt v =
     (let num = (case v of Some (JStr s) \<Rightarrow> Some (JNum (StringToNumber rt s)) | _ \<Rightarrow> v)
      in to_number rt (or_js num (Some (JNum (Fin 0)))))"

definition toCurrency :: "Runtime \<Rightarrow> json option \<Rightarrow> json option \<Rightarrow> cell" where
  "toCurrency rt v currency =
     Money (currency_amount rt v)
       (case or_js currency (Some (JStr ''USD'')) of Some c \<Rightarrow> to_string rt c | None \<Rightarrow> ''USD'')"

record Recommendation =
  rec_type :: "json option"
  rec_amount :: cell
  rec_rationale :: "json option"

record StructuredEstimate =
  est_low :: "cell option"
  est_high :: "cell option"
  est_duration :: "json option"
  est_feasible :: bool
  est_feasibility_label :: "json option"
  est_gap :: "(cell \<times> json option) option"
  est_rows :: "(string \<times> cell) list"
  est_recommendations :: "Recommendation list"
  est_raw :: string

record TableRow =
  row_description :: "json option"
  row_quantity :: "json option"
  row_unitPrice :: "json option"
  row_total :: "json option"

datatype PricingView =
    NoView
  | Structured StructuredEstimate
  | Tabular "TableRow list" jsnum cell
  | RawFallback string

definition breakdownLabels :: "(string \<times> string) list" where
  "breakdownLabels =
     [(''infra_monthly'', ''Infra Monthly''),
      (''migration_per_app_total'', ''Migration (per app total)''),
      (''data_migration_total'', ''Data Migration Total''),
      (''pm_and_testing'', ''PM & Testing''),
      (''contingency'', ''Contingency''),
      (''duration_months'', ''Duration (months)'')]"

text \<open>\<open>x || {}\<close>.\<close>

definition or_empty_object :: "json option \<Rightarrow> json" where
  "or_empty_object v = (case or_js v (Some (JObj [])) of Some x \<Rightarrow> x | None \<Rightarrow> JObj [])"

definition to_string_opt :: "Runtime \<Rightarrow> json option \<Rightarrow> string" where
  "to_string_opt rt v = (case v of None \<Rightarrow> ''undefined'' | Some x \<Rightarrow> to_string rt x)"

definition breakdownRows :: "Runtime \<Rightarrow> json \<Rightarrow> json option \<Rightarrow> (string \<times> cell) list" where
  "breakdownRows rt breakdown currency =
     map (\<lambda>(key, label).
            (label, if key = ''duration_months'' then Bare (to_string_opt rt (get breakdown key))
                    else toCurrency rt (get breakdown key) currency))
         (filter (\<lambda>(key, label). get breakdown key \<noteq> None) breakdownLabels)"

definition recommendation :: "Runtime \<Rightarrow> json option \<Rightarrow> json \<Rightarrow> js_error + Recommendation" where
  "recommendation rt currency r =
     (case read_prop (Some r) ''type'' of
        Inl e \<Rightarrow> Inl e
      | Inr ty \<Rightarrow>
          Inr \<lparr> rec_type = ty,
                rec_amount = toCurrency rt (get r ''amount'') currency,
                rec_rationale = get r ''rationale'' \<rparr>)"

definition structured_view :: "Runtime \<Rightarrow> json \<Rightarrow> js_error + PricingView" where
  "structured_view rt payload =
     (let pc = or_empty_object (get payload ''pricing_check'');
          ecr = or_empty_object (get pc ''estimated_cost_range'');
          breakdown = or_empty_object (get pc ''breakdown'');
          feasibility = or_empty_object (get pc ''feasibility'');
          recommendations = array_items (get pc ''funding_recommendations'');
          currency = or_js (get ecr ''currency'') (or_js (get payload ''currency'') (Some (JStr ''USD'')));
          rows = breakdownRows rt breakdown currency;
          gapAbs = get feasibility ''funding_gap_absolute'';
          gapPct = get feasibility ''funding_gap_pct'';
          feasible =
            (toLowerCase (to_string_opt rt (or_js (get feasibility ''feasibility'') (Some (JStr [])))) = ''feasible'')
      in case map_throwing (recommendation rt currency) recommendations of
           Inl e \<Rightarrow> Inl e
         | Inr recs \<Rightarrow>
             Inr (Structured
               \<lparr> est_low = (if get ecr ''low'' \<noteq> None then Some (toCurrency rt (get ecr ''low'') currency) else None),
                 est_high = (if get ecr ''high'' \<noteq> None then Some (toCurrency rt (get ecr ''high'') currency) else None),
                 est_duration = get breakdown ''duration_months'',
                 est_feasible = feasible,
                 est_feasibility_label =
                   (if feasible then Some (JStr ''Feasible'')
                    else or_js (get feasibility ''feasibility'') (Some (JStr ''Unknown''))),
                 est_gap = (if gapAbs \<noteq> None then Some (toCurrency rt gapAbs currency, gapPct) else None),
                 est_rows = rows,
                 est_recommendations = recs,
                 est_raw = JSON_stringify_indented rt payload \<rparr>))"

text \<open>The array the table is built from, or \<open>null\<close>.\<close>

definition pricing_items :: "json \<Rightarrow> json list option" where
  "pricing_items payload =
     (if isArray (Some payload) then Some (array_items (Some payload))
      else if isArray (opt_prop (Some payload) ''items'') then Some (array_items (opt_prop (Some payload) ''items''))
      else if isArray (opt_prop (Some payload) ''lineItems'') then Some (array_items (opt_prop (Some payload) ''lineItems''))
      else if isArray (opt_prop (Some payload) ''pricing'') then Some (array_items (opt_prop (Some payload) ''pricing''))
      else None)"

definition js_number :: "int \<Rightarrow> json option" where
  "js_number i = Some (JNum (Fin i))"

text \<open>One row of the table; \<open>idx\<close> counts from 0.\<close>

definition table_row :: "Runtime \<Rightarrow> json \<Rightarrow> nat \<Rightarrow> js_error + TableRow" where
  "table_row rt it idx =
     (case read_prop (Some it) ''description'' of
        Inl e \<Rightarrow> Inl e
      | Inr d \<Rightarrow>
          (let description =
                 or_js d (or_js (get it ''item'') (or_js (get it ''name'')
                   (Some (JStr (''Item '' @ show_nat (idx + 1))))));
               quantity = coalesce (get it ''quantity'') (coalesce (get it ''qty'') (js_number 1));
               unitPrice =
                 coalesce (get it ''unitPrice'') (coalesce (get it ''pricePerUnit'')
                   (coalesce (get it ''unit_rate'') (coalesce (get it ''rate'') (js_number 0))));
               total =
                 coalesce (get it ''total'') (coalesce (get it ''extendedPrice'')
                   (coalesce (get it ''amount'')
                     (Some (JNum (js_mul rt (to_number rt quantity) (to_number rt unitPrice))))))
           in Inr \<lparr> row_description = description, row_quantity = quantity,
                    row_unitPrice = unitPrice, row_total = total \<rparr>))"

fun table_rows :: "Runtime \<Rightarrow> json list \<Rightarrow> nat \<Rightarrow> js_error + TableRow list" where
  "table_rows rt [] idx = Inr []"
| "table_rows rt (it # its) idx =
     (case table_row rt it idx of
        Inl e \<Rightarrow> Inl e
      | Inr r \<Rightarrow> (case table_rows rt its (idx + 1) of Inl e \<Rightarrow> Inl e | Inr rs \<Rightarrow> Inr (r # rs)))"

text \<open>\<open>rows.reduce((acc, r) => acc + Number(r.total || 0), 0)\<close>.\<close>

definition total_number :: "Runtime \<Rightarrow> TableRow \<Rightarrow> jsnum" where
  "total_number rt r = to_number rt (or_js (row_total r) (js_number 0))"

definition grandTotal :: "Runtime \<Rightarrow> TableRow list \<Rightarrow> jsnum" where
  "grandTotal rt rows = foldl (\<lambda>acc r. js_add rt acc (total_number rt r)) (Fin 0) rows"

definition tabular_view :: "Runtime \<Rightarrow> json \<Rightarrow> json list \<Rightarrow> js_error + PricingView" where
  "tabular_view rt payload items =
     (let currency =
            or_js (opt_prop (Some payload) ''currency'')
              (or_js (opt_prop (case items of [] \<Rightarrow> None | it # _ \<Rightarrow> Some it) ''currency'')
                 (Some (JStr ''USD'')))
      in case table_rows rt items 0 of
           Inl e \<Rightarrow> Inl e
         | Inr rows \<Rightarrow>
             Inr (Tabular rows (grandTotal rt rows)
                    (toCurrency rt (Some (JNum (grandTotal rt rows))) currency)))"

text \<open>\<open>renderPricingTable\<close>: the view, or the error thrown while building it.\<close>

definition renderPricingTable :: "Runtime \<Rightarrow> json option \<Rightarrow> js_error + PricingView" where
  "renderPricingTable rt data =
     (case data of
        None \<Rightarrow> Inr NoView
      | Some payload \<Rightarrow>
          (if \<not> truthy_json payload then Inr NoView
           else if truthy (opt_prop (Some payload) ''pricing_check'') then structured_view rt payload
           else (case pricing_items payload of
                   None \<Rightarrow> Inr (RawFallback (JSON_stringify_indented rt payload))
                 | Some items \<Rightarrow> tabular_view rt payload items)))"

definition structured_sample :: json where
  "structured_sample =
     JObj [(''pricing_check'',
       JObj [(''estimated_cost_range'',
                JObj [(''low'', JNum (Fin 100)), (''high'', JNum (Fin 200)), (''currency'', JStr ''USD'')]),
             (''breakdown'', JObj [(''duration_months'', JNum (Fin 3))]),
             (''feasibility'', JObj [(''feasibility'', JStr ''Feasible'')])])]"

definition tabular_sample :: json where
  "tabular_sample =
     JArr [JObj [(''description'', JStr ''A''), (''quantity'', JNum (Fin 2)),
                 (''unitPrice'', JNum (Fin 10))]]"

section \<open>Vocabulary of the payload properties\<close>

text \<open>How the fallback prints a property's value: a string as it is, anything else serialised.\<close>

definition value_text :: "Runtime \<Rightarrow> json \<Rightarrow> string" where
  "value_text rt v = (case v of JStr s \<Rightarrow> s | _ \<Rightarrow> JSON_stringify rt v)"

definition key_value_question :: "Runtime \<Rightarrow> string \<times> json \<Rightarrow> json" where
  "key_value_question rt kv = JStr (fst kv @ '': '' @ value_text rt (snd kv))"

text \<open>The properties the fallback runs over: those of \<open>json || {}\<close>.\<close>

definition top_level_props :: "json \<Rightarrow> (string \<times> json) list" where
  "top_level_props payload = (if truthy_json payload then own_props payload else [])"

definition unrecognized_shape :: "json \<Rightarrow> bool" where
  "unrecognized_shape payload =
     (\<not> isArray (Some payload) \<and> \<not> isArray (opt_prop (Some payload) ''questions'') \<and>
      \<not> isArray (opt_prop (Some payload) ''clarifications''))"

definition foo_bar :: json where
  "foo_bar = JObj [(''foo'', JStr ''bar'')]"

definition mixed_object :: json where
  "mixed_object = JObj [(''scope'', JStr ''migration''), (''apps'', JNum (Fin 12)), (''questions'', JStr ''none'')]"

text \<open>The row total as the specification words it, and the sum of a list of numbers.\<close>

definition spec_quantity :: "json \<Rightarrow> json option" where
  "spec_quantity it =
     (if \<not> nullish (get it ''quantity'') then get it ''quantity''
      else if \<not> nullish (get it ''qty'') then get it ''qty''
      else Some (JNum (Fin 1)))"

definition spec_unitPrice :: "json \<Rightarrow> json option" where
  "spec_unitPrice it =
     (if \<not> nullish (get it ''unitPrice'') then get it ''unitPrice''
      else if \<not> nullish (get it ''pricePerUnit'') then get it ''pricePerUnit''
      else if \<not> nullish (get it ''unit_rate'') then get it ''unit_rate''
      else if \<not> nullish (get it ''rate'') then get it ''rate''
      else Some (JNum (Fin 0)))"

definition spec_row_total :: "Runtime \<Rightarrow> json \<Rightarrow> json option" where
  "spec_row_total rt it =
     (if \<not> nullish (get it ''total'') then get it ''total''
      else if \<not> nullish (get it ''extendedPrice'') then get it ''extendedPrice''
      else if \<not> nullish (get it ''amount'') then get it ''amount''
      else Some (JNum (js_mul rt (to_number rt (spec_quantity it)) (to_number rt (spec_unitPrice it)))))"

text \<open>The sum of a list of numbers, added one after the other from the left, from 0.\<close>

definition left_sum :: "Runtime \<Rightarrow> jsnum list \<Rightarrow> jsnum" where
  "left_sum rt ns = foldl (js_add rt) (Fin 0) ns"

definition feasibility_payload :: "string \<Rightarrow> json" where
  "feasibility_payload s =
     JObj [(''pricing_check'', JObj [(''feasibility'', JObj [(''feasibility'', JStr s)])])]"

definition view_feasible :: "js_error + PricingView \<Rightarrow> bool option" where
  "view_feasible v = (case v of Inr (Structured e) \<Rightarrow> Some (est_feasible e) | _ \<Rightarrow> None)"

section \<open>ArchitectureDiagram component: the view\<close>

record ArchitectureInfo =
  info_title :: "json option"
  info_customer :: "json option"
  info_generated_at :: "json option"
  info_services :: "json list"
  info_explanation :: "json option"
  info_mermaid_code :: "json option"
  info_notes :: "json list"

text \<open>
  What the component renders: the loading state, the error state, the "no data" state,
  the container with nothing in it (\<open>renderArchitectureInfo\<close> gave \<open>null\<close>), or the
  overview.
\<close>

datatype ArchitectureView =
    LoadingState
  | ErrorState string
  | NoDataState
  | EmptyContainer
  | Overview ArchitectureInfo

text \<open>\<open>v.map(f)\<close> for a property value \<open>v\<close>: only an array has the method.\<close>

definition map_items :: "json option \<Rightarrow> js_error + json list" where
  "map_items v =
     (case v of
        None \<Rightarrow> Inl (TypeError ''Cannot read properties of undefined (reading map)'')
      | Some JNull \<Rightarrow> Inl (TypeError ''Cannot read properties of null (reading map)'')
      | Some (JArr xs) \<Rightarrow> Inr xs
      | Some _ \<Rightarrow> Inl (TypeError ''map is not a function''))"

text \<open>\<open>v.length\<close> for a value that is neither \<open>null\<close> nor \<open>undefined\<close>.\<close>

definition js_length :: "json \<Rightarrow> json option" where
  "js_length v =
     (case v of
        JArr xs \<Rightarrow> Some (JNum (Fin (int (length xs))))
      | JStr s \<Rightarrow> Some (JNum (Fin (int (length s))))
      | JObj kvs \<Rightarrow> get v ''length''
      | _ \<Rightarrow> None)"

text \<open>\<open>v > 0\<close>.\<close>

definition greater_zero :: "Runtime \<Rightarrow> json option \<Rightarrow> bool" where
  "greater_zero rt v =
     (case to_number rt v of
        NaN \<Rightarrow> False
      | Fin n \<Rightarrow> 0 < n
      | NonInt r \<Rightarrow> 0 < r
      | Infinity b \<Rightarrow> b)"

text \<open>\<open>proposal.implementation_notes && proposal.implementation_notes.length > 0 && notes.map(...)\<close>\<close>

definition implementation_notes :: "Runtime \<Rightarrow> json option \<Rightarrow> js_error + json list" where
  "implementation_notes rt notes =
     (case notes of
        None \<Rightarrow> Inr []
      | Some n \<Rightarrow>
          (if truthy_json n \<and> greater_zero rt (js_length n) then map_items notes else Inr []))"

text \<open>Sequencing of steps that may throw.\<close>

definition and_then :: "js_error + 'a \<Rightarrow> ('a \<Rightarrow> js_error + 'b) \<Rightarrow> js_error + 'b" where
  "and_then r f = (case r of Inl e \<Rightarrow> Inl e | Inr x \<Rightarrow> f x)"

definition renderArchitectureInfo :: "Runtime \<Rightarrow> json option \<Rightarrow> js_error + ArchitectureInfo option" where
  "renderArchitectureInfo rt architectureData =
     (if \<not> truthy architectureData \<or> \<not> truthy (opt_prop architectureData ''architecture_diagram'')
      then Inr None
      else
        let ad = opt_prop architectureData ''architecture_diagram'';
            proposal = opt_prop ad ''proposal'';
            diagram = opt_prop ad ''diagram''
        in and_then (read_prop proposal ''project_info'') (\<lambda>project_info.
           and_then (read_prop project_info ''title'') (\<lambda>title.
           and_then (read_prop project_info ''customer'') (\<lambda>customer.
           and_then (read_prop project_info ''generated_at'') (\<lambda>generated_at.
           and_then (read_prop proposal ''architecture'') (\<lambda>architecture.
           and_then (read_prop architecture ''recommended_services'') (\<lambda>rs.
           and_then (map_items rs) (\<lambda>services.
           and_then (read_prop architecture ''explanation'') (\<lambda>explanation.
           and_then (implementation_notes rt (opt_prop proposal ''implementation_notes'')) (\<lambda>notes.
             Inr (Some
               \<lparr> info_title = title, info_customer = customer, info_generated_at = generated_at,
                 info_services = services, info_explanation = explanation,
                 info_mermaid_code =
                   (if truthy diagram \<and> truthy (opt_prop diagram ''mermaid_code'')
                    then opt_prop diagram ''mermaid_code'' else None),
                 info_notes = notes \<rparr>)))))))))))"

record ArchitectureState =
  architectureData :: "json option"
  arch_loading :: bool
  arch_error :: string

text \<open>The component's render, or the error thrown while rendering.\<close>

definition ArchitectureDiagram :: "Runtime \<Rightarrow> ArchitectureState \<Rightarrow> js_error + ArchitectureView" where
  "ArchitectureDiagram rt st =
     (if arch_loading st then Inr LoadingState
      else if arch_error st \<noteq> [] then Inr (ErrorState (arch_error st))
      else if \<not> truthy (architectureData st) then Inr NoDataState
      else (case renderArchitectureInfo rt (architectureData st) of
              Inl e \<Rightarrow> Inl e
            | Inr None \<Rightarrow> Inr EmptyContainer
            | Inr (Some info) \<Rightarrow> Inr (Overview info)))"

definition loaded :: "json option \<Rightarrow> ArchitectureState" where
  "loaded payload = \<lparr> architectureData = payload, arch_loading = False, arch_error = [] \<rparr>"

definition sample_proposal :: json where
  "sample_proposal =
     JObj [(''project_info'',
              JObj [(''title'', JStr ''Migration''), (''customer'', JStr ''Acme''),
                    (''generated_at'', JStr ''2025-10-19T17:45:01'')]),
           (''architecture'',
              JObj [(''recommended_services'', JArr [JStr ''EC2'', JStr ''S3'']),
                    (''explanation'', JStr ''Lift and shift'')])]"

definition proposal_only :: json where
  "proposal_only = JObj [(''architecture_diagram'', JObj [(''proposal'', sample_proposal)])]"

definition diagram_only :: json where
  "diagram_only =
     JObj [(''architecture_diagram'',
        JObj [(''diagram'', JObj [(''mermaid_code'', JStr ''graph TD'')])])]"

text \<open>A proposal with everything the overview reads.\<close>

definition complete_proposal :: "Runtime \<Rightarrow> json \<Rightarrow> bool" where
  "complete_proposal rt p =
     (\<exists>pinfo arch xs ns.
        get p ''project_info'' = Some pinfo \<and> pinfo \<noteq> JNull \<and>
        get p ''architecture'' = Some arch \<and> arch \<noteq> JNull \<and>
        get arch ''recommended_services'' = Some (JArr xs) \<and>
        implementation_notes rt (get p ''implementation_notes'') = Inr ns)"

definition shows_diagram :: "js_error + ArchitectureView \<Rightarrow> bool" where
  "shows_diagram v = (case v of Inr (Overview info) \<Rightarrow> info_mermaid_code info \<noteq> None | _ \<Rightarrow> False)"

definition is_overview :: "js_error + ArchitectureView \<Rightarrow> bool" where
  "is_overview v = (case v of Inr (Overview info) \<Rightarrow> True | _ \<Rightarrow> False)"

section \<open>Properties of the step classifier\<close>

lemma endsWith_last: "endsWith s t \<Longrightarrow> t \<noteq> [] \<Longrightarrow> last s = last t"
proof -
  assume e: "endsWith s t" and ne: "t \<noteq> []"
  from e have len: "length t \<le> length s" and d: "drop (length s - length t) s = t"
    by (simp_all add: endsWith_def)
  from ne len have "length s - length t < length s"
    by (cases t) auto
  then have "last (drop (length s - length t) s) = last s"
    by (rule last_drop)
  with d show ?thesis by simp
qed

lemma endsWith_nonempty: "endsWith s t \<Longrightarrow> t \<noteq> [] \<Longrightarrow> s \<noteq> []"
  by (auto simp: endsWith_def)

lemma find_in: "find P xs = Some x \<Longrightarrow> P x \<and> x \<in> set xs"
  by (auto simp: find_Some_iff)

lemma or_else_Some: "or_else a b = Some x \<Longrightarrow> a = Some x \<or> b = Some x"
  by (cases a) (simp_all add: or_else_def)

lemma sowStep_doc:
  "sowStep steps = Some s \<Longrightarrow> last (lower_out s) = CHR ''x'' \<or> last (lower_out s) = CHR ''f''"
proof -
  assume "sowStep steps = Some s"
  then have "sow_named s \<or> sow_any_doc s"
    unfolding sowStep_def by (auto dest!: or_else_Some find_in)
  then have "endsWith (lower_out s) ''.docx'' \<or> endsWith (lower_out s) ''.pdf''"
    by (auto simp: sow_named_def sow_any_doc_def lower_out_def Let_def)
  then show ?thesis by (auto dest: endsWith_last)
qed

lemma pricingStep_json: "pricingStep steps = Some s \<Longrightarrow> last (lower_out s) = CHR ''n''"
proof -
  assume "pricingStep steps = Some s"
  then have "pricing_named s \<or> pricing_any_json s"
    unfolding pricingStep_def by (auto dest!: or_else_Some find_in)
  then have "endsWith (lower_out s) ''.json''"
    by (auto simp: pricing_named_def pricing_any_json_def lower_out_def Let_def)
  then show ?thesis by (auto dest: endsWith_last)
qed

lemma clarStep_json: "clarStep steps = Some s \<Longrightarrow> last (lower_out s) = CHR ''n''"
proof -
  assume "clarStep steps = Some s"
  then have "clar_named s \<or> clar_any_json s"
    unfolding clarStep_def by (auto dest!: or_else_Some find_in)
  then have "endsWith (lower_out s) ''.json''"
    by (auto simp: clar_named_def clar_any_json_def lower_out_def Let_def)
  then show ?thesis by (auto dest: endsWith_last)
qed

lemma architectureStep_png: "architectureStep steps = Some s \<Longrightarrow> last (lower_out s) = CHR ''g''"
proof -
  assume "architectureStep steps = Some s"
  then have "architecture_named s"
    unfolding architectureStep_def by (auto dest!: find_in)
  then have "endsWith (lower_out s) ''.png''"
    by (auto simp: architecture_named_def lower_out_def Let_def)
  then show ?thesis by (auto dest: endsWith_last)
qed

lemma any_json_same: "pricing_any_json s = clar_any_json s"
  by (auto simp: pricing_any_json_def clar_any_json_def Let_def dest: endsWith_nonempty)

lemma not_same_bound:
  "(\<And>s. x = Some s \<Longrightarrow> \<not> P s) \<Longrightarrow> (\<And>s. y = Some s \<Longrightarrow> P s) \<Longrightarrow> \<not> same_bound x y"
  by (auto simp: same_bound_def)

text \<open>
  C1 (as the code has it). The scans are independent: none skips a step that another role
  holds. The extensions keep SOW (\<open>.docx\<close>, \<open>.pdf\<close>), the Dashboard's architecture
  (\<open>.png\<close>) and the two JSON roles apart, so those bindings are never the same step; but
  pricing and clarification share their fallback (the first \<open>.json\<close> step), so whenever
  neither has a role-specific match they bind the same step.
\<close>

theorem classify_overlap:
  "\<not> same_bound (rb_sow (classify steps)) (rb_pricing (classify steps)) \<and>
   \<not> same_bound (rb_sow (classify steps)) (rb_architecture (classify steps)) \<and>
   \<not> same_bound (rb_sow (classify steps)) (rb_clarification (classify steps)) \<and>
   \<not> same_bound (rb_pricing (classify steps)) (rb_architecture (classify steps)) \<and>
   \<not> same_bound (rb_clarification (classify steps)) (rb_architecture (classify steps)) \<and>
   (find pricing_named steps = None \<and> find clar_named steps = None \<longrightarrow>
      rb_pricing (classify steps) = rb_clarification (classify steps))"
proof -
  have 1: "\<not> same_bound (sowStep steps) (pricingStep steps)"
    by (rule not_same_bound [where P = "\<lambda>s. last (lower_out s) = CHR ''n''"])
       (auto dest: sowStep_doc pricingStep_json)
  have 2: "\<not> same_bound (sowStep steps) (architectureStep steps)"
    by (rule not_same_bound [where P = "\<lambda>s. last (lower_out s) = CHR ''g''"])
       (auto dest: sowStep_doc architectureStep_png)
  have 3: "\<not> same_bound (sowStep steps) (clarStep steps)"
    by (rule not_same_bound [where P = "\<lambda>s. last (lower_out s) = CHR ''n''"])
       (auto dest: sowStep_doc clarStep_json)
  have 4: "\<not> same_bound (pricingStep steps) (architectureStep steps)"
    by (rule not_same_bound [where P = "\<lambda>s. last (lower_out s) = CHR ''g''"])
       (auto dest: pricingStep_json architectureStep_png)
  have 5: "\<not> same_bound (clarStep steps) (architectureStep steps)"
    by (rule not_same_bound [where P = "\<lambda>s. last (lower_out s) = CHR ''g''"])
       (auto dest: clarStep_json architectureStep_png)
  have "find pricing_any_json steps = find clar_any_json steps"
    by (rule arg_cong [where f = "\<lambda>P. find P steps"]) (auto simp: any_json_same fun_eq_iff)
  then have 6: "find pricing_named steps = None \<and> find clar_named steps = None \<longrightarrow>
      pricingStep steps = clarStep steps"
    by (simp add: pricingStep_def clarStep_def or_else_def)
  from 1 2 3 4 5 6 show ?thesis by (simp add: classify_def)
qed

theorem classify_overlap_witness:
  "find pricing_named full_run = None \<and> find clar_named full_run = None \<and>
   rb_pricing (classify full_run) = rb_clarification (classify full_run) \<and>
   rb_pricing (classify full_run) = Some (hd full_run) \<and>
   rb_architecture (classify full_run) = Some diagram_step \<and>
   rb_sow (classify full_run) = Some sow_step \<and>
   \<not> same_bound (rb_sow (classify full_run)) (rb_pricing (classify full_run))"
proof -
  have p: "find pricing_named full_run = None" by code_simp
  have c: "find clar_named full_run = None" by code_simp
  have h: "rb_pricing (classify full_run) = Some (hd full_run)" by code_simp
  have a: "rb_architecture (classify full_run) = Some diagram_step" by code_simp
  have s: "rb_sow (classify full_run) = Some sow_step" by code_simp
  from p c h a s classify_overlap [of full_run] show ?thesis by blast
qed

text \<open>
  C1 (as stated) fails: with a single JSON-producing step, the pricing scan and the
  clarification scan both fall back to it, and the one record is bound to two roles.
\<close>

theorem double_binding_counterexample:
  "\<not> no_double_binding (classify parsing_only) \<and>
   rb_pricing (classify parsing_only) = Some (hd parsing_only) \<and>
   rb_clarification (classify parsing_only) = Some (hd parsing_only)"
  by code_simp

lemma find_first_match: "find P xs = Some x \<longleftrightarrow> first_match P xs x"
  unfolding first_match_def find_Some_iff by blast

lemma architecture_named_png: "architecture_named = png_architecture"
  by (auto simp: fun_eq_iff architecture_named_def png_architecture_def mentions_architecture_def
      lower_out_def lower_name_def Let_def)

lemma component_named_exact: "component_architecture_named = exact_architecture_json"
  by (auto simp: fun_eq_iff component_architecture_named_def exact_architecture_json_def
      truthy_str_def or_empty_def endsWith_def split: option.splits)

text \<open>
  C8 (as the code has it). The Dashboard binds the architecture role to the first step
  whose lowercased output ends in \<open>.png\<close> and whose lowercased name or output mentions
  "architecture" or "diagram"; the ArchitectureDiagram component binds the first step
  labelled exactly "Architecture Diagram" whose output ends in \<open>.json\<close>. Each is
  unresolved exactly when no step passes its test.
\<close>

theorem architecture_binding:
  "(architectureStep steps = Some s \<longleftrightarrow> first_match png_architecture steps s) \<and>
   (architectureStep steps = None \<longleftrightarrow> (\<forall>x \<in> set steps. \<not> png_architecture x)) \<and>
   (componentArchitectureStep steps = Some s \<longleftrightarrow> first_match exact_architecture_json steps s) \<and>
   (componentArchitectureStep steps = None \<longleftrightarrow> (\<forall>x \<in> set steps. \<not> exact_architecture_json x))"
  by (auto simp: architectureStep_def componentArchitectureStep_def architecture_named_png
      component_named_exact find_first_match find_None_iff)

theorem architecture_binding_witness:
  "architectureStep full_run = Some diagram_step \<and>
   first_match png_architecture full_run diagram_step \<and>
   componentArchitectureStep full_run = None \<and>
   \<not> exact_architecture_json diagram_step"
proof -
  have a: "architectureStep full_run = Some diagram_step" by code_simp
  have c: "componentArchitectureStep full_run = None" by code_simp
  have d: "diagram_step \<in> set full_run"
    by (simp add: full_run_def)
  from a c d architecture_binding [of full_run diagram_step] show ?thesis
    by blast
qed

text \<open>
  C8 (as stated) fails: a step named "AWS Architecture" with a \<open>.json\<close> output passes the
  stated rule, and neither scan binds it.
\<close>

theorem architecture_json_counterexample:
  "spec_architectureStep architecture_json_only = Some (hd architecture_json_only) \<and>
   architectureStep architecture_json_only = None \<and>
   componentArchitectureStep architecture_json_only = None"
  by code_simp

text \<open>
  C10. The download listing keeps, in order, exactly the steps with a non-empty output
  whose lowercased name contains neither "parsing" nor "clarification".
\<close>

theorem download_listing_exact:
  "downloadListing steps = filter download_eligible steps \<and>
   set (downloadListing steps) = {s. s \<in> set steps \<and> download_eligible s}"
proof -
  have "download_listed = download_eligible"
    by (auto simp: fun_eq_iff download_listed_def download_eligible_def truthy_str_def
        lower_name_def Let_def split: option.splits)
  then show ?thesis by (auto simp: downloadListing_def)
qed

section \<open>Properties of the simulated progress\<close>

lemma sim_tick_bounds:
  assumes "0 \<le> sim_minStep opts" and "sim_tick opts st = (st1, es)"
  shows "(\<forall>e \<in> set es. e \<le> sim_ceiling opts \<and> min (current st) (sim_ceiling opts) \<le> e \<and> e = current st1)
         \<and> min (current st) (sim_ceiling opts) \<le> min (current st1) (sim_ceiling opts)
         \<and> length es \<le> 1"
proof (cases "cleared st \<or> stopped st")
  case True
  with assms(2) have "es = []" and "st1 = st" by (simp_all add: sim_tick_def)
  then show ?thesis by simp
next
  case False
  define cur where "cur = min (current st + sim_delta opts st) (sim_ceiling opts)"
  have "sim_minStep opts \<le> sim_delta opts st"
    unfolding sim_delta_def Let_def by (rule max.cobounded1)
  with assms(1) have d: "0 \<le> sim_delta opts st" by (rule order_trans)
  from False assms(2) have "(st\<lparr> current := cur, cleared := (cur \<ge> sim_ceiling opts) \<rparr>, [cur]) = (st1, es)"
    unfolding sim_tick_def Let_def cur_def by (simp only: if_False)
  then have es: "es = [cur]" and st1: "current st1 = cur" by auto
  have "cur \<le> sim_ceiling opts" unfolding cur_def by (rule min.cobounded2)
  moreover from d have "min (current st) (sim_ceiling opts) \<le> cur"
    unfolding cur_def by (intro min.mono) simp_all
  ultimately show ?thesis using es st1 by simp
qed

lemma sim_ticks_sorted:
  assumes "0 \<le> sim_minStep opts"
  shows "sim_ticks opts n st = (st', es) \<Longrightarrow>
     sorted es \<and> (\<forall>e \<in> set es. e \<le> sim_ceiling opts \<and> min (current st) (sim_ceiling opts) \<le> e)"
proof (induction n arbitrary: st st' es)
  case 0
  then show ?case by simp
next
  case (Suc n)
  obtain st1 e1 where t: "sim_tick opts st = (st1, e1)" by (cases "sim_tick opts st")
  obtain st2 e2 where r: "sim_ticks opts n st1 = (st2, e2)" by (cases "sim_ticks opts n st1")
  from Suc.prems t r have es: "es = e1 @ e2" by simp
  from sim_tick_bounds [OF assms t]
  have b1: "\<forall>e \<in> set e1. e \<le> sim_ceiling opts \<and> min (current st) (sim_ceiling opts) \<le> e \<and> e = current st1"
    and m: "min (current st) (sim_ceiling opts) \<le> min (current st1) (sim_ceiling opts)"
    and l: "length e1 \<le> 1" by auto
  from Suc.IH [OF r]
  have s2: "sorted e2"
    and b2: "\<forall>e \<in> set e2. e \<le> sim_ceiling opts \<and> min (current st1) (sim_ceiling opts) \<le> e" by auto
  from l have s1: "sorted e1" by (cases e1) auto
  have "\<forall>x \<in> set e1. \<forall>y \<in> set e2. x \<le> y"
  proof (intro ballI)
    fix x y assume x: "x \<in> set e1" and y: "y \<in> set e2"
    from b1 x have "x = current st1" "x \<le> sim_ceiling opts" by auto
    moreover from b2 y have "min (current st1) (sim_ceiling opts) \<le> y" by auto
    ultimately show "x \<le> y" by simp
  qed
  with s1 s2 have "sorted (e1 @ e2)" by (simp add: sorted_append)
  moreover from b1 b2 m have "\<forall>e \<in> set (e1 @ e2). e \<le> sim_ceiling opts \<and> min (current st) (sim_ceiling opts) \<le> e"
    by auto
  ultimately show ?case using es by simp
qed

text \<open>
  C2 (as the code has it). With a non-negative minimal step (the default is 1), for every
  start, ceiling and number of ticks the reported values never decrease and never exceed
  the ceiling; they stay within 100 when the ceiling does (the pipeline passes 95).
\<close>

theorem simulated_progress_monotone:
  assumes "0 \<le> sim_minStep opts"
  shows "sorted (simulated_progress opts n) \<and>
         (\<forall>p \<in> set (simulated_progress opts n). p \<le> sim_ceiling opts) \<and>
         (sim_ceiling opts \<le> 100 \<longrightarrow> (\<forall>p \<in> set (simulated_progress opts n). p \<le> 100))"
proof -
  let ?st0 = "\<lparr> current = sim_start_value opts, stopped = False, cleared = False \<rparr>"
  obtain st' es where r: "sim_ticks opts n ?st0 = (st', es)" by (cases "sim_ticks opts n ?st0")
  have sp: "simulated_progress opts n = min (sim_start_value opts) (sim_ceiling opts) # es"
    by (simp add: simulated_progress_def startSimulatedProgress_def r)
  from sim_ticks_sorted [OF assms r]
  have s: "sorted es"
    and b: "\<forall>e \<in> set es. e \<le> sim_ceiling opts \<and> min (sim_start_value opts) (sim_ceiling opts) \<le> e"
    by auto
  from s b have 1: "sorted (simulated_progress opts n)" by (simp add: sp)
  from b have 2: "\<forall>p \<in> set (simulated_progress opts n). p \<le> sim_ceiling opts" by (simp add: sp)
  have 3: "sim_ceiling opts \<le> 100 \<longrightarrow> (\<forall>p \<in> set (simulated_progress opts n). p \<le> 100)"
  proof (intro impI ballI)
    fix p assume c: "sim_ceiling opts \<le> 100" and p: "p \<in> set (simulated_progress opts n)"
    from 2 p have "p \<le> sim_ceiling opts" by (rule bspec)
    with c show "p \<le> 100" by simp
  qed
  show ?thesis by (intro conjI 1 2 3)
qed


theorem simulated_progress_monotone_witness:
  "0 \<le> sim_minStep pipeline_sim_options \<and> sim_ceiling pipeline_sim_options \<le> 100 \<and>
   simulated_progress pipeline_sim_options 6 = [10, 15, 20, 25, 30, 35, 40] \<and>
   sorted (simulated_progress pipeline_sim_options 6) \<and>
   list_all (\<lambda>p. p \<le> 100) (simulated_progress pipeline_sim_options 6)"
proof -
  have h: "0 \<le> sim_minStep pipeline_sim_options" by code_simp
  have c: "sim_ceiling pipeline_sim_options \<le> 100" by code_simp
  have v: "simulated_progress pipeline_sim_options 6 = [10, 15, 20, 25, 30, 35, 40]" by code_simp
  note m = simulated_progress_monotone [OF h, of 6]
  from m have s: "sorted (simulated_progress pipeline_sim_options 6)" by (rule conjunct1)
  from m have "sim_ceiling pipeline_sim_options \<le> 100 \<longrightarrow>
      (\<forall>p \<in> set (simulated_progress pipeline_sim_options 6). p \<le> 100)"
    by (elim conjE)
  with c have "\<forall>p \<in> set (simulated_progress pipeline_sim_options 6). p \<le> 100"
    by (rule rev_mp)
  then have b: "list_all (\<lambda>p. p \<le> 100) (simulated_progress pipeline_sim_options 6)"
    by (simp only: list_all_iff)
  show ?thesis by (intro conjI h c v s b)
qed

text \<open>
  C2 (as stated) fails for a ceiling above 100: started at 140 with ceiling 150, the first
  reported value is 140.
\<close>

theorem simulated_progress_over_100_counterexample:
  "simulated_progress high_ceiling_options 0 = [140] \<and>
   \<not> (\<forall>p \<in> set (simulated_progress high_ceiling_options 0). p \<le> 100)"
proof -
  have v: "simulated_progress high_ceiling_options 0 = [140]" by code_simp
  then show ?thesis by simp
qed

section \<open>Properties of the pipeline run\<close>

lemma pipeline_sim_bounded:
  assumes "sim_ticks pipeline_sim_options n (fst (startSimulatedProgress pipeline_sim_options)) = (st1, es)"
  shows "\<forall>e \<in> set (snd (startSimulatedProgress pipeline_sim_options) @ es). e \<le> 95"
proof -
  have m: "0 \<le> sim_minStep pipeline_sim_options"
    by (simp add: sim_minStep_def pipeline_sim_options_def or_default_def)
  have c: "sim_ceiling pipeline_sim_options = 95"
    by (simp add: sim_ceiling_def pipeline_sim_options_def or_default_def)
  from sim_ticks_sorted [OF m assms] c have "\<forall>e \<in> set es. e \<le> 95" by simp
  moreover have "snd (startSimulatedProgress pipeline_sim_options) = [10]"
    by (simp add: startSimulatedProgress_def sim_start_value_def sim_ceiling_def
        pipeline_sim_options_def or_default_def)
  ultimately show ?thesis by simp
qed

lemma processRFP_failure:
  assumes up: "env_upload_done env = Resolved ()"
    and fail: "outcome (processRFP file userEmail env) = Inl err"
  shows "timer_cancelled (timer (processRFP file userEmail env)) \<and>
         (\<forall>e \<in> set (process_events (processRFP file userEmail env)). p_progress e \<le> 95)"
proof -
  obtain st0 e0 where s0: "startSimulatedProgress pipeline_sim_options = (st0, e0)"
    by (cases "startSimulatedProgress pipeline_sim_options")
  obtain st1 es where s1: "sim_ticks pipeline_sim_options (env_ticks env) st0 = (st1, es)"
    by (cases "sim_ticks pipeline_sim_options (env_ticks env) st0")
  from s0 s1 have "\<forall>e \<in> set (e0 @ es). e \<le> 95"
    using pipeline_sim_bounded [of "env_ticks env" st1 es] by simp
  then have b: "\<forall>e \<in> set (map (progress_event ''process'' ''Processing...'') (e0 @ es)).
      p_progress e \<le> 95"
    by (auto simp: progress_event_def)
  from up fail s0 s1 b show ?thesis
    by (auto simp: processRFP_def uploadFileToS3_def Let_def timer_cancelled_def stopSim_def
        process_events_def progress_event_def split: sum.splits)
qed

lemma processRFP_success:
  assumes ok: "outcome (processRFP file userEmail env) = Inr res"
  shows "timer_cancelled (timer (processRFP file userEmail env)) \<and>
         last (emitted (processRFP file userEmail env)) =
           progress_event ''process'' ''Processing complete!'' 100"
proof -
  obtain st0 e0 where s0: "startSimulatedProgress pipeline_sim_options = (st0, e0)"
    by (cases "startSimulatedProgress pipeline_sim_options")
  obtain st1 es where s1: "sim_ticks pipeline_sim_options (env_ticks env) st0 = (st1, es)"
    by (cases "sim_ticks pipeline_sim_options (env_ticks env) st0")
  from ok s0 s1 show ?thesis
    by (auto simp: processRFP_def uploadFileToS3_def Let_def timer_cancelled_def stopSim_def
        split: sum.splits settled.splits)
qed

lemma handleUpload_failure:
  assumes sel: "selectedFile st = Some file"
    and fail: "outcome (processRFP file userEmail env) = Inl err"
  shows "handleUpload pf userEmail env (st, b) =
     (st\<lparr> processing := False, error := or_text (error_message err) ''Failed to process RFP'',
          results := None, progress := progress_event [] [] 0 \<rparr>, b)"
  using sel fail by (simp add: handleUpload_def Let_def)

lemma handleUpload_success:
  assumes sel: "selectedFile st = Some file"
    and ok: "outcome (processRFP file userEmail env) = Inr res"
  shows "results (fst (handleUpload pf userEmail env (st, b))) =
           Some (normalize_body pf (processingResult res))"
  using sel ok by (simp add: handleUpload_def Let_def)

text \<open>
  C4 (as the code has it). With a file selected and the upload done, when the Lambda
  invocation fails the Dashboard is left with the error message, no results, no role
  state and an untouched cache; the simulation timer is cancelled; the progress is not set
  to 100: every value reported for the processing step stays within the simulation's
  ceiling of 95, and the \<open>finally\<close> block resets the display to 0. When the invocation
  succeeds the timer is cancelled as well and the last value reported is 100.
\<close>

theorem invocation_failure:
  assumes sel: "selectedFile st = Some file"
    and up: "env_upload_done env = Resolved ()"
  shows
    "(\<forall>err. outcome (processRFP file userEmail env) = Inl err \<longrightarrow>
        results (fst (handleUpload pf userEmail env (st, b))) = None \<and>
        error (fst (handleUpload pf userEmail env (st, b))) =
          or_text (error_message err) ''Failed to process RFP'' \<and>
        detect_outputs (results (fst (handleUpload pf userEmail env (st, b)))) = no_roles \<and>
        snd (handleUpload pf userEmail env (st, b)) = b \<and>
        timer_cancelled (timer (processRFP file userEmail env)) \<and>
        (\<forall>e \<in> set (process_events (processRFP file userEmail env)). p_progress e \<le> 95) \<and>
        p_progress (progress (fst (handleUpload pf userEmail env (st, b)))) = 0) \<and>
     (\<forall>res. outcome (processRFP file userEmail env) = Inr res \<longrightarrow>
        results (fst (handleUpload pf userEmail env (st, b))) =
          Some (normalize_body pf (processingResult res)) \<and>
        timer_cancelled (timer (processRFP file userEmail env)) \<and>
        last (emitted (processRFP file userEmail env)) =
          progress_event ''process'' ''Processing complete!'' 100)"
proof (intro conjI allI impI)
  fix err assume f: "outcome (processRFP file userEmail env) = Inl err"
  note h = handleUpload_failure [OF sel f, of pf b]
  show "results (fst (handleUpload pf userEmail env (st, b))) = None" by (simp add: h)
  show "error (fst (handleUpload pf userEmail env (st, b))) =
          or_text (error_message err) ''Failed to process RFP''" by (simp add: h)
  show "detect_outputs (results (fst (handleUpload pf userEmail env (st, b)))) = no_roles"
    by (simp add: h detect_outputs_def no_roles_def)
  show "snd (handleUpload pf userEmail env (st, b)) = b" by (simp add: h)
  show "p_progress (progress (fst (handleUpload pf userEmail env (st, b)))) = 0"
    by (simp add: h progress_event_def)
  from processRFP_failure [OF up f]
  show "timer_cancelled (timer (processRFP file userEmail env))"
    and "\<forall>e \<in> set (process_events (processRFP file userEmail env)). p_progress e \<le> 95"
    by blast+
next
  fix res assume ok: "outcome (processRFP file userEmail env) = Inr res"
  show "results (fst (handleUpload pf userEmail env (st, b))) =
          Some (normalize_body pf (processingResult res))"
    by (rule handleUpload_success [OF sel ok])
  from processRFP_success [OF ok]
  show "timer_cancelled (timer (processRFP file userEmail env))"
    and "last (emitted (processRFP file userEmail env)) =
          progress_event ''process'' ''Processing complete!'' 100"
    by blast+
qed

theorem invocation_failure_witness:
  "selectedFile idle_dashboard = Some sample_file \<and>
   env_upload_done failing_env = Resolved () \<and>
   outcome (processRFP sample_file sample_email failing_env) = Inl (Error ''Task timed out'') \<and>
   results (fst (handleUpload no_platform sample_email failing_env (idle_dashboard, empty_browser))) = None \<and>
   error (fst (handleUpload no_platform sample_email failing_env (idle_dashboard, empty_browser))) =
     ''Task timed out'' \<and>
   timer_cancelled (timer (processRFP sample_file sample_email failing_env)) \<and>
   list_all (\<lambda>e. p_progress e \<le> 95) (process_events (processRFP sample_file sample_email failing_env)) \<and>
   outcome (processRFP sample_file sample_email succeeding_env) =
     Inr \<lparr> rfp_success = True,
           uploadResult = \<lparr> up_success = True, up_key = ''a.b/1729_rfp.pdf'',
                            up_bucket = S3_INPUT_BUCKET \<rparr>,
           processingResult = sample_result \<rparr> \<and>
   last (emitted (processRFP sample_file sample_email succeeding_env)) =
     progress_event ''process'' ''Processing complete!'' 100"
proof -
  have sel: "selectedFile idle_dashboard = Some sample_file" by code_simp
  have up: "env_upload_done failing_env = Resolved ()" by code_simp
  have up': "env_upload_done succeeding_env = Resolved ()" by code_simp
  have f: "outcome (processRFP sample_file sample_email failing_env) = Inl (Error ''Task timed out'')"
    by code_simp
  have ok: "outcome (processRFP sample_file sample_email succeeding_env) =
     Inr \<lparr> rfp_success = True,
           uploadResult = \<lparr> up_success = True, up_key = ''a.b/1729_rfp.pdf'',
                            up_bucket = S3_INPUT_BUCKET \<rparr>,
           processingResult = sample_result \<rparr>"
    by code_simp
  have m: "or_text (error_message (Error ''Task timed out'')) ''Failed to process RFP'' = ''Task timed out''"
    by code_simp
  note a = invocation_failure [OF sel up, of sample_email no_platform empty_browser]
  note b = invocation_failure [OF sel up', of sample_email no_platform empty_browser]
  from a f have 1:
    "results (fst (handleUpload no_platform sample_email failing_env (idle_dashboard, empty_browser))) = None"
    and 2: "error (fst (handleUpload no_platform sample_email failing_env (idle_dashboard, empty_browser))) =
      or_text (error_message (Error ''Task timed out'')) ''Failed to process RFP''"
    and 3: "timer_cancelled (timer (processRFP sample_file sample_email failing_env))"
    and 4: "\<forall>e \<in> set (process_events (processRFP sample_file sample_email failing_env)). p_progress e \<le> 95"
    by blast+
  from 4 have l4: "list_all (\<lambda>e. p_progress e \<le> 95) (process_events (processRFP sample_file sample_email failing_env))"
    by (simp only: list_all_iff)
  from b ok have 5: "last (emitted (processRFP sample_file sample_email succeeding_env)) =
     progress_event ''process'' ''Processing complete!'' 100"
    by blast
  from 2 m have e2: "error (fst (handleUpload no_platform sample_email failing_env (idle_dashboard, empty_browser))) =
     ''Task timed out''" by (rule trans)
  show ?thesis by (intro conjI sel up f 1 e2 3 l4 ok 5)
qed

text \<open>
  C4 (as stated) fails: when the invocation is rejected after three timer periods, the
  last value reported is 25, no value of the processing step is 100, and the Dashboard
  ends at 0.
\<close>

theorem no_snap_on_failure_counterexample:
  "outcome (processRFP sample_file sample_email failing_env) = Inl (Error ''Task timed out'') \<and>
   map p_progress (emitted (processRFP sample_file sample_email failing_env)) =
     [0, 50, 100, 100, 10, 10, 15, 20, 25] \<and>
   last (emitted (processRFP sample_file sample_email failing_env)) =
     progress_event ''process'' ''Processing...'' 25 \<and>
   \<not> list_ex (\<lambda>e. p_progress e = 100) (process_events (processRFP sample_file sample_email failing_env)) \<and>
   p_progress (progress (fst (handleUpload no_platform sample_email failing_env
      (idle_dashboard, empty_browser)))) = 0"
  by code_simp

text \<open>
  C9. Where the platform's \<open>JSON.parse\<close> gives back, for the text that
  \<open>JSON.stringify\<close> wrote, a result with the same steps, and the item fits the storage:
  the Results page, opened without router state, reads from the cache a value that
  classifies to the same role binding as the one written. A stored value that does not
  parse, or no stored value, gives \<open>null\<close> and no error.
\<close>

theorem cache_round_trip:
  "(route_results b = None \<and>
    length ''rfx_results'' + length (JSON_stringify_result pf r) \<le> storage_quota b \<and>
    JSON_stringify_result pf r \<noteq> [] \<and>
    JSON_parse_result pf (JSON_stringify_result pf r) = Inr (Some r') \<and>
    steps_of r' = steps_of r \<longrightarrow>
      results_memo pf (cache_write pf b r) = Some r' \<and>
      cached_binding pf (cache_write pf b r) = Some (classify (steps_of r))) \<and>
   (route_results b = None \<and> getItem b ''rfx_results'' = Some cached \<and>
    JSON_parse_result pf cached = Inl err \<longrightarrow> results_memo pf b = None) \<and>
   (route_results b = None \<and> getItem b ''rfx_results'' = None \<longrightarrow> results_memo pf b = None)"
proof (intro conjI impI)
  assume h: "route_results b = None \<and>
    length ''rfx_results'' + length (JSON_stringify_result pf r) \<le> storage_quota b \<and>
    JSON_stringify_result pf r \<noteq> [] \<and>
    JSON_parse_result pf (JSON_stringify_result pf r) = Inr (Some r') \<and>
    steps_of r' = steps_of r"
  then have w: "cache_write pf b r =
      b\<lparr> localStorage := (localStorage b)(''rfx_results'' \<mapsto> JSON_stringify_result pf r) \<rparr>"
    by (simp add: cache_write_def setItem_def)
  from h show m: "results_memo pf (cache_write pf b r) = Some r'"
    by (simp add: w results_memo_def getItem_def)
  from h show "cached_binding pf (cache_write pf b r) = Some (classify (steps_of r))"
    by (simp add: cached_binding_def m)
next
  assume "route_results b = None \<and> getItem b ''rfx_results'' = Some cached \<and>
    JSON_parse_result pf cached = Inl err"
  then show "results_memo pf b = None"
    by (simp add: results_memo_def)
next
  assume "route_results b = None \<and> getItem b ''rfx_results'' = None"
  then show "results_memo pf b = None"
    by (simp add: results_memo_def)
qed

theorem cache_round_trip_witness:
  "route_results empty_browser = None \<and>
   length ''rfx_results'' + length (JSON_stringify_result sample_platform sample_result)
     \<le> storage_quota empty_browser \<and>
   JSON_stringify_result sample_platform sample_result \<noteq> [] \<and>
   JSON_parse_result sample_platform (JSON_stringify_result sample_platform sample_result) =
     Inr (Some sample_result) \<and>
   results_memo sample_platform (cache_write sample_platform empty_browser sample_result) =
     Some sample_result \<and>
   cached_binding sample_platform (cache_write sample_platform empty_browser sample_result) =
     Some (classify full_run) \<and>
   getItem corrupted_browser ''rfx_results'' = Some ''{not json'' \<and>
   JSON_parse_result sample_platform ''{not json'' = Inl (SyntaxError ''Unexpected token'') \<and>
   results_memo sample_platform corrupted_browser = None"
proof -
  have 1: "route_results empty_browser = None" by code_simp
  have 2: "length ''rfx_results'' + length (JSON_stringify_result sample_platform sample_result)
     \<le> storage_quota empty_browser" by code_simp
  have 3: "JSON_stringify_result sample_platform sample_result \<noteq> []" by code_simp
  have 4: "JSON_parse_result sample_platform (JSON_stringify_result sample_platform sample_result) =
     Inr (Some sample_result)" by code_simp
  have 5: "steps_of sample_result = full_run" by code_simp
  have 6: "route_results corrupted_browser = None" by code_simp
  have 7: "getItem corrupted_browser ''rfx_results'' = Some ''{not json''" by code_simp
  have 8: "JSON_parse_result sample_platform ''{not json'' = Inl (SyntaxError ''Unexpected token'')"
    by code_simp
  from 1 2 3 4 cache_round_trip [of empty_browser sample_platform sample_result sample_result]
  have 9: "results_memo sample_platform (cache_write sample_platform empty_browser sample_result) =
     Some sample_result"
    and 10: "cached_binding sample_platform (cache_write sample_platform empty_browser sample_result) =
     Some (classify (steps_of sample_result))"
    by blast+
  from 6 7 8 cache_round_trip [of corrupted_browser sample_platform _ _ "''{not json''"]
  have 11: "results_memo sample_platform corrupted_browser = None" by blast
  from 10 5 have c10: "cached_binding sample_platform (cache_write sample_platform empty_browser sample_result) =
     Some (classify full_run)" by simp
  show ?thesis by (intro conjI 1 2 3 4 9 c10 7 8 11)
qed

section \<open>Properties of the clarification questions\<close>

lemma map_of_distinct_fst:
  "distinct (map fst kvs) \<Longrightarrow> kv \<in> set kvs \<Longrightarrow> map_of kvs (fst kv) = Some (snd kv)"
  by (cases kv) simp

lemma pseudo_questions_props:
  assumes "distinct (map fst (own_props payload))"
  shows "map (pseudo_question rt payload) (map fst (own_props payload)) =
         map (key_value_question rt) (own_props payload)"
proof -
  have "\<And>kv. kv \<in> set (own_props payload) \<Longrightarrow>
      pseudo_question rt payload (fst kv) = key_value_question rt kv"
  proof -
    fix kv assume "kv \<in> set (own_props payload)"
    with assms have "get payload (fst kv) = Some (snd kv)"
      unfolding get_def by (rule map_of_distinct_fst)
    then show "pseudo_question rt payload (fst kv) = key_value_question rt kv"
      by (cases "snd kv") (simp_all add: pseudo_question_def key_value_question_def value_text_def)
  qed
  then show ?thesis by simp
qed

text \<open>
  C7. A payload of none of the recognised shapes gives one pseudo-question per top-level
  property, "key: value", where a string value is printed as it is and any other value
  as \<open>JSON.stringify\<close> prints it (the properties of an object are distinct). The payload
  \<open>{foo: 'bar'}\<close> gives the one question "foo: bar".
\<close>

theorem clarification_fallback:
  "(unrecognized_shape payload \<and> distinct (Object_keys payload) \<longrightarrow>
      processClarifications rt payload = Inr (map (key_value_question rt) (top_level_props payload)) \<and>
      map_sum id length (processClarifications rt payload) =
        Inr (length (Object_keys (if truthy_json payload then payload else JObj [])))) \<and>
   processClarifications rt foo_bar = Inr [JStr ''foo: bar'']"
proof (intro conjI impI)
  assume h: "unrecognized_shape payload \<and> distinct (Object_keys payload)"
  then have d: "distinct (map fst (own_props payload))" by (simp add: Object_keys_def)
  from h have p: "processClarifications rt payload =
      Inr (map (pseudo_question rt payload) (Object_keys (if truthy_json payload then payload else JObj [])))"
    by (simp add: processClarifications_def unrecognized_shape_def)
  show q: "processClarifications rt payload = Inr (map (key_value_question rt) (top_level_props payload))"
  proof (cases "truthy_json payload")
    case True
    with p pseudo_questions_props [OF d, of rt] show ?thesis
      by (simp add: Object_keys_def top_level_props_def)
  next
    case False
    with p show ?thesis by (simp add: Object_keys_def top_level_props_def)
  qed
  show "map_sum id length (processClarifications rt payload) =
        Inr (length (Object_keys (if truthy_json payload then payload else JObj [])))"
    by (simp add: p)
next
  show "processClarifications rt foo_bar = Inr [JStr ''foo: bar'']"
    by (simp add: processClarifications_def foo_bar_def isArray_def opt_prop_def get_def
        Object_keys_def pseudo_question_def)
qed

theorem clarification_fallback_witness:
  "unrecognized_shape mixed_object \<and> distinct (Object_keys mixed_object) \<and>
   processClarifications sample_runtime mixed_object =
     Inr [JStr ''scope: migration'', JStr ''apps: (json)'', JStr ''questions: none'']"
proof -
  have u: "unrecognized_shape mixed_object" by code_simp
  have d: "distinct (Object_keys mixed_object)" by code_simp
  have m: "map (key_value_question sample_runtime) (top_level_props mixed_object) =
     [JStr ''scope: migration'', JStr ''apps: (json)'', JStr ''questions: none'']" by code_simp
  from u d clarification_fallback [of mixed_object sample_runtime]
  have "processClarifications sample_runtime mixed_object =
      Inr (map (key_value_question sample_runtime) (top_level_props mixed_object))" by blast
  with m have r: "processClarifications sample_runtime mixed_object =
     Inr [JStr ''scope: migration'', JStr ''apps: (json)'', JStr ''questions: none'']" by simp
  show ?thesis by (intro conjI u d r)
qed

section \<open>Properties of the pricing view\<close>

text \<open>
  C5. The payload with \<open>pricing_check\<close> is shown in the structured variant: the low and
  high estimates are 100 and 200 in USD, the verdict is feasible, and the duration row
  holds the bare text "3". The verdict compares the lowercased feasibility string with
  "feasible".
\<close>

theorem structured_pricing_example:
  "renderPricingTable rt (Some structured_sample) =
     Inr (Structured
       \<lparr> est_low = Some (Money (Fin 100) ''USD''),
         est_high = Some (Money (Fin 200) ''USD''),
         est_duration = Some (JNum (Fin 3)),
         est_feasible = True,
         est_feasibility_label = Some (JStr ''Feasible''),
         est_gap = None,
         est_rows = [(''Duration (months)'', Bare ''3'')],
         est_recommendations = [],
         est_raw = JSON_stringify_indented rt structured_sample \<rparr>) \<and>
   view_feasible (renderPricingTable rt (Some (feasibility_payload s))) =
     Some (toLowerCase s = ''feasible'')"
proof
  show "renderPricingTable rt (Some structured_sample) =
     Inr (Structured
       \<lparr> est_low = Some (Money (Fin 100) ''USD''),
         est_high = Some (Money (Fin 200) ''USD''),
         est_duration = Some (JNum (Fin 3)),
         est_feasible = True,
         est_feasibility_label = Some (JStr ''Feasible''),
         est_gap = None,
         est_rows = [(''Duration (months)'', Bare ''3'')],
         est_recommendations = [],
         est_raw = JSON_stringify_indented rt structured_sample \<rparr>)"
    by code_simp
next
  have g: "\<And>k. get (JObj [(''feasibility'', JStr s)]) k = (if k = ''feasibility'' then Some (JStr s) else None)"
    by (simp add: get_def)
  show "view_feasible (renderPricingTable rt (Some (feasibility_payload s))) =
     Some (toLowerCase s = ''feasible'')"
    by (cases "s = []")
       (simp_all add: renderPricingTable_def feasibility_payload_def opt_prop_def get_def truthy_def
        structured_view_def or_empty_object_def or_js_def array_items_def view_feasible_def
        to_string_opt_def Let_def toLowerCase_def)
qed

lemma read_prop_present: "it \<noteq> JNull \<Longrightarrow> read_prop (Some it) k = Inr (get it k)"
  by (cases it) (simp_all add: read_prop_def)

lemma table_row_total:
  assumes "it \<noteq> JNull"
  shows "\<exists>r. table_row rt it idx = Inr r \<and> row_total r = spec_row_total rt it"
  using assms
  by (simp add: table_row_def read_prop_present Let_def spec_row_total_def spec_quantity_def
      spec_unitPrice_def coalesce_def js_number_def)

lemma table_rows_totals:
  "JNull \<notin> set items \<Longrightarrow>
   \<exists>rows. table_rows rt items idx = Inr rows \<and> map row_total rows = map (spec_row_total rt) items"
proof (induction items arbitrary: idx)
  case Nil
  then show ?case by simp
next
  case (Cons it items)
  from Cons.prems have "it \<noteq> JNull" by auto
  then obtain r where r: "table_row rt it idx = Inr r" "row_total r = spec_row_total rt it"
    using table_row_total by blast
  from Cons.prems have "JNull \<notin> set items" by simp
  from Cons.IH [OF this, of "idx + 1"]
  obtain rows where rows: "table_rows rt items (idx + 1) = Inr rows"
      "map row_total rows = map (spec_row_total rt) items"
    by blast
  from r rows show ?case by simp
qed

lemma foldl_map_total:
  "foldl (\<lambda>acc r. js_add rt acc (f r)) a rows = foldl (js_add rt) a (map f rows)"
  by (induction rows arbitrary: a) simp_all

lemma grandTotal_sum: "grandTotal rt rows = left_sum rt (map (total_number rt) rows)"
  unfolding grandTotal_def left_sum_def by (rule foldl_map_total)

lemma foldl_exact:
  "\<bar>a\<bar> + sum_list (map abs ns) \<le> 2 ^ 53 \<Longrightarrow>
   foldl (js_add rt) (Fin a) (map Fin ns) = Fin (a + sum_list ns)"
proof (induction ns arbitrary: a)
  case Nil
  then show ?case by simp
next
  case (Cons n ns)
  have nonneg: "0 \<le> sum_list (map abs ns)" by (rule sum_list_nonneg) auto
  from Cons.prems have b: "\<bar>a\<bar> + \<bar>n\<bar> + sum_list (map abs ns) \<le> 2 ^ 53" by simp
  have tri: "\<bar>a + n\<bar> \<le> \<bar>a\<bar> + \<bar>n\<bar>" by (rule abs_triangle_ineq)
  from b tri nonneg have s: "safe_integer (a + n)" unfolding safe_integer_def by linarith
  from b tri have "\<bar>a + n\<bar> + sum_list (map abs ns) \<le> 2 ^ 53" by linarith
  from Cons.IH [OF this] s show ?case by (simp add: add.assoc)
qed

lemma left_sum_exact:
  "sum_list (map abs ns) \<le> 2 ^ 53 \<Longrightarrow> left_sum rt (map Fin ns) = Fin (sum_list ns)"
  using foldl_exact [of 0 ns rt] by (simp add: left_sum_def)

lemma pricing_items_truthy: "pricing_items payload = Some items \<Longrightarrow> truthy_json payload"
  by (cases payload; cases "payload = JStr []")
     (auto simp: pricing_items_def isArray_def opt_prop_def get_def split: if_splits)

text \<open>
  C6 (as the code has it). When the payload has no \<open>pricing_check\<close>, is an array or
  holds an array under \<open>items\<close>, \<open>lineItems\<close> or \<open>pricing\<close>, and no item is
  \<open>null\<close>: the table has one row per item, each row's total is
  \<open>total ?? extendedPrice ?? amount ?? Number(quantity) * Number(unitPrice)\<close>, and the
  grand total is the sum of \<open>Number(total || 0)\<close> over the rows, added in double
  arithmetic from the left, starting at 0. Where the numbers added are integers whose
  absolute values sum to at most \<open>2^53\<close>, that is their exact sum. The array with the
  one item A, quantity 2, unit price 10, gives one row with total 20 and grand total 20.
\<close>

theorem tabular_totals:
  "(\<not> truthy (opt_prop (Some payload) ''pricing_check'') \<and>
    pricing_items payload = Some items \<and> JNull \<notin> set items \<longrightarrow>
      (\<exists>rows shown.
         renderPricingTable rt (Some payload) =
           Inr (Tabular rows (left_sum rt (map (total_number rt) rows)) shown) \<and>
         map row_total rows = map (spec_row_total rt) items)) \<and>
   (sum_list (map abs ns) \<le> 2 ^ 53 \<longrightarrow> left_sum rt (map Fin ns) = Fin (sum_list ns)) \<and>
   renderPricingTable rt (Some tabular_sample) =
     Inr (Tabular
       [\<lparr> row_description = Some (JStr ''A''), row_quantity = Some (JNum (Fin 2)),
           row_unitPrice = Some (JNum (Fin 10)), row_total = Some (JNum (Fin 20)) \<rparr>]
       (Fin 20) (Money (Fin 20) ''USD''))"
proof (intro conjI impI)
  assume h: "\<not> truthy (opt_prop (Some payload) ''pricing_check'') \<and>
    pricing_items payload = Some items \<and> JNull \<notin> set items"
  then have t: "truthy_json payload" by (auto dest: pricing_items_truthy)
  from h obtain rows where rows: "table_rows rt items 0 = Inr rows"
      "map row_total rows = map (spec_row_total rt) items"
    using table_rows_totals [of items rt 0] by blast
  from h t rows(1) have "\<exists>shown. renderPricingTable rt (Some payload) =
      Inr (Tabular rows (left_sum rt (map (total_number rt) rows)) shown)"
    by (simp add: renderPricingTable_def tabular_view_def Let_def grandTotal_sum)
  with rows(2) show "\<exists>rows shown.
         renderPricingTable rt (Some payload) =
           Inr (Tabular rows (left_sum rt (map (total_number rt) rows)) shown) \<and>
         map row_total rows = map (spec_row_total rt) items"
    by blast
next
  assume "sum_list (map abs ns) \<le> 2 ^ 53"
  then show "left_sum rt (map Fin ns) = Fin (sum_list ns)" by (rule left_sum_exact)
next
  show "renderPricingTable rt (Some tabular_sample) =
     Inr (Tabular
       [\<lparr> row_description = Some (JStr ''A''), row_quantity = Some (JNum (Fin 2)),
           row_unitPrice = Some (JNum (Fin 10)), row_total = Some (JNum (Fin 20)) \<rparr>]
       (Fin 20) (Money (Fin 20) ''USD''))"
    by code_simp
qed

theorem tabular_totals_witness:
  "\<not> truthy (opt_prop (Some tabular_sample) ''pricing_check'') \<and>
   pricing_items tabular_sample = Some (array_items (Some tabular_sample)) \<and>
   JNull \<notin> set (array_items (Some tabular_sample)) \<and>
   (\<exists>rows shown.
      renderPricingTable sample_runtime (Some tabular_sample) =
        Inr (Tabular rows (left_sum sample_runtime (map (total_number sample_runtime) rows)) shown) \<and>
      map row_total rows = map (spec_row_total sample_runtime) (array_items (Some tabular_sample))) \<and>
   sum_list (map abs [20, - 5, 7]) \<le> (2 ^ 53 :: int) \<and>
   left_sum sample_runtime (map Fin [20, - 5, 7]) = Fin 22"
proof -
  have 1: "\<not> truthy (opt_prop (Some tabular_sample) ''pricing_check'')" by code_simp
  have 2: "pricing_items tabular_sample = Some (array_items (Some tabular_sample))" by code_simp
  have 3: "JNull \<notin> set (array_items (Some tabular_sample))" by code_simp
  from 1 2 3 tabular_totals [of tabular_sample "array_items (Some tabular_sample)" sample_runtime]
  have 4: "\<exists>rows shown.
      renderPricingTable sample_runtime (Some tabular_sample) =
        Inr (Tabular rows (left_sum sample_runtime (map (total_number sample_runtime) rows)) shown) \<and>
      map row_total rows = map (spec_row_total sample_runtime) (array_items (Some tabular_sample))"
    by blast
  have 5: "sum_list (map abs [20, - 5, 7]) \<le> (2 ^ 53 :: int)" by simp
  from 5 tabular_totals [of _ _ sample_runtime "[20, - 5, 7]"]
  have "left_sum sample_runtime (map Fin [20, - 5, 7]) = Fin (sum_list [20, - 5, 7])" by blast
  then have 6: "left_sum sample_runtime (map Fin [20, - 5, 7]) = Fin 22" by simp
  show ?thesis by (intro conjI 1 2 3 4 5 6)
qed

text \<open>
  C6 (as stated) fails for an array that holds \<open>null\<close>: reading the description of the
  item throws, and no table is built.
\<close>

theorem null_item_counterexample:
  "renderPricingTable sample_runtime (Some (JArr [JNull])) =
     Inl (TypeError ''Cannot read properties of null (reading description)'')"
  by code_simp

section \<open>Properties of the architecture view\<close>

lemma read_prop_Some: "v \<noteq> JNull \<Longrightarrow> read_prop (Some v) k = Inr (get v k)"
  by (cases v) (simp_all add: read_prop_def)

lemma get_not_null: "get v k = Some x \<Longrightarrow> v \<noteq> JNull"
  by (auto simp: get_def)

lemma get_truthy: "get v k = Some x \<Longrightarrow> truthy_json v"
  by (cases v) (auto simp: get_def)

lemma overview_of_complete:
  assumes ad: "get payload ''architecture_diagram'' = Some ad" "truthy_json ad"
    and tp: "truthy_json payload"
    and p: "get ad ''proposal'' = Some p" "complete_proposal rt p"
  shows "\<exists>info. renderArchitectureInfo rt (Some payload) = Inr (Some info) \<and>
           info_mermaid_code info =
             (if truthy (get ad ''diagram'') \<and> truthy (opt_prop (get ad ''diagram'') ''mermaid_code'')
              then opt_prop (get ad ''diagram'') ''mermaid_code'' else None)"
proof -
  from p(2) obtain pinfo arch xs ns where c:
    "get p ''project_info'' = Some pinfo" "pinfo \<noteq> JNull"
    "get p ''architecture'' = Some arch" "arch \<noteq> JNull"
    "get arch ''recommended_services'' = Some (JArr xs)"
    "implementation_notes rt (get p ''implementation_notes'') = Inr ns"
    unfolding complete_proposal_def by blast
  from c(1) have pn: "p \<noteq> JNull" by (rule get_not_null)
  from ad(2) have an: "ad \<noteq> JNull" by auto
  from tp have yn: "payload \<noteq> JNull" by auto
  have o1: "opt_prop (Some payload) ''architecture_diagram'' = Some ad"
    using yn ad(1) by (cases payload) (simp_all add: opt_prop_def)
  have o2: "opt_prop (Some ad) ''proposal'' = Some p"
    using an p(1) by (cases ad) (simp_all add: opt_prop_def)
  have o3: "opt_prop (Some ad) ''diagram'' = get ad ''diagram''"
    using an by (cases ad) (simp_all add: opt_prop_def)
  have o4: "opt_prop (Some p) ''implementation_notes'' = get p ''implementation_notes''"
    using pn by (cases p) (simp_all add: opt_prop_def)
  show ?thesis
    unfolding renderArchitectureInfo_def
    by (simp add: o1 o2 o3 o4 truthy_def tp ad(2) Let_def and_then_def read_prop_Some pn c map_items_def)
qed

text \<open>
  C3 (as the code has it). With nothing loading and no error: a missing or falsy payload
  gives the "no data" state; a payload without \<open>architecture_diagram\<close> gives the
  container with nothing in it; and where the proposal is complete and the diagram
  sub-object is absent, the overview is rendered without the diagram section, and nothing
  is thrown.
\<close>

theorem architecture_degradation:
  "(\<not> truthy payload \<longrightarrow> ArchitectureDiagram rt (loaded payload) = Inr NoDataState) \<and>
   (truthy payload \<and> \<not> truthy (opt_prop payload ''architecture_diagram'') \<longrightarrow>
      ArchitectureDiagram rt (loaded payload) = Inr EmptyContainer) \<and>
   (payload = Some y \<and> get y ''architecture_diagram'' = Some ad \<and> get ad ''proposal'' = Some p \<and>
    complete_proposal rt p \<and> get ad ''diagram'' = None \<longrightarrow>
      is_overview (ArchitectureDiagram rt (loaded payload)) \<and>
      \<not> shows_diagram (ArchitectureDiagram rt (loaded payload)))"
proof (intro conjI impI)
  assume "\<not> truthy payload"
  then show "ArchitectureDiagram rt (loaded payload) = Inr NoDataState"
    by (simp add: ArchitectureDiagram_def loaded_def)
next
  assume "truthy payload \<and> \<not> truthy (opt_prop payload ''architecture_diagram'')"
  then show "ArchitectureDiagram rt (loaded payload) = Inr EmptyContainer"
    by (simp add: ArchitectureDiagram_def loaded_def renderArchitectureInfo_def)
next
  assume h: "payload = Some y \<and> get y ''architecture_diagram'' = Some ad \<and> get ad ''proposal'' = Some p \<and>
    complete_proposal rt p \<and> get ad ''diagram'' = None"
  then have t: "truthy_json ad" and ty: "truthy_json y"
    by (auto intro: get_truthy)
  from h overview_of_complete [OF _ t ty _ _, of p rt]
  obtain info where i: "renderArchitectureInfo rt payload = Inr (Some info)"
      "info_mermaid_code info = None"
    by (auto simp: truthy_def)
  from h i ty have v: "ArchitectureDiagram rt (loaded payload) = Inr (Overview info)"
    by (simp add: ArchitectureDiagram_def loaded_def truthy_def)
  from v show "is_overview (ArchitectureDiagram rt (loaded payload))"
    by (simp add: is_overview_def)
  from v i(2) show "\<not> shows_diagram (ArchitectureDiagram rt (loaded payload))"
    by (simp add: shows_diagram_def)
qed

theorem architecture_degradation_witness:
  "\<not> truthy (Some JNull) \<and>
   ArchitectureDiagram sample_runtime (loaded (Some JNull)) = Inr NoDataState \<and>
   truthy (Some (JObj [])) \<and> \<not> truthy (opt_prop (Some (JObj [])) ''architecture_diagram'') \<and>
   ArchitectureDiagram sample_runtime (loaded (Some (JObj []))) = Inr EmptyContainer \<and>
   complete_proposal sample_runtime sample_proposal \<and>
   is_overview (ArchitectureDiagram sample_runtime (loaded (Some proposal_only))) \<and>
   \<not> shows_diagram (ArchitectureDiagram sample_runtime (loaded (Some proposal_only)))"
proof -
  have 1: "\<not> truthy (Some JNull)" by code_simp
  have 2: "truthy (Some (JObj []))" by code_simp
  have 3: "\<not> truthy (opt_prop (Some (JObj [])) ''architecture_diagram'')" by code_simp
  have 4: "get proposal_only ''architecture_diagram'' = Some (JObj [(''proposal'', sample_proposal)])"
    by (simp add: proposal_only_def get_def)
  have 5: "get (JObj [(''proposal'', sample_proposal)]) ''proposal'' = Some sample_proposal"
    by (simp add: get_def)
  have 6: "get (JObj [(''proposal'', sample_proposal)]) ''diagram'' = None"
    by (simp add: get_def)
  have 7: "complete_proposal sample_runtime sample_proposal"
    unfolding complete_proposal_def
    by (intro exI [of _ "JObj [(''title'', JStr ''Migration''), (''customer'', JStr ''Acme''),
                    (''generated_at'', JStr ''2025-10-19T17:45:01'')]"]
         exI [of _ "JObj [(''recommended_services'', JArr [JStr ''EC2'', JStr ''S3'']),
                    (''explanation'', JStr ''Lift and shift'')]"]
         exI [of _ "[JStr ''EC2'', JStr ''S3'']"] exI [of _ "[]"])
       (simp add: sample_proposal_def get_def implementation_notes_def)
  from 1 architecture_degradation [of "Some JNull" sample_runtime]
  have a: "ArchitectureDiagram sample_runtime (loaded (Some JNull)) = Inr NoDataState" by blast
  from 2 3 architecture_degradation [of "Some (JObj [])" sample_runtime]
  have b: "ArchitectureDiagram sample_runtime (loaded (Some (JObj []))) = Inr EmptyContainer" by blast
  from 4 5 6 7 architecture_degradation [of "Some proposal_only" sample_runtime proposal_only
      "JObj [(''proposal'', sample_proposal)]" sample_proposal]
  have c: "is_overview (ArchitectureDiagram sample_runtime (loaded (Some proposal_only)))"
    and d: "\<not> shows_diagram (ArchitectureDiagram sample_runtime (loaded (Some proposal_only)))"
    by blast+
  show ?thesis by (intro conjI 1 a 2 3 b 7 c d)
qed

text \<open>
  C3 (as stated) fails: without the diagram sub-object the component renders the
  overview, not the "no data" state; without the proposal sub-object, reading
  \<open>proposal.project_info\<close> throws.
\<close>

theorem architecture_absent_counterexample:
  "ArchitectureDiagram sample_runtime (loaded (Some proposal_only)) =
     Inr (Overview
       \<lparr> info_title = Some (JStr ''Migration''), info_customer = Some (JStr ''Acme''),
         info_generated_at = Some (JStr ''2025-10-19T17:45:01''),
         info_services = [JStr ''EC2'', JStr ''S3''],
         info_explanation = Some (JStr ''Lift and shift''),
         info_mermaid_code = None, info_notes = [] \<rparr>) \<and>
   ArchitectureDiagram sample_runtime (loaded (Some diagram_only)) =
     Inl (TypeError ''Cannot read properties of undefined (reading project_info)'')"
  by code_simp

end
